theory Spec2Isabelle
  imports Main "HOL-Library.Word"
begin

section \<open>Data model of \<open>paranoid_crypto/lib/ec_single_checks.py\<close>\<close>

text \<open>
  The module holds three checks over a batch of EC keys (\<open>paranoid_pb2.ECKey\<close>):
  \<open>CheckValidECKey\<close>, \<open>CheckWeakCurve\<close> and \<open>CheckWeakECPrivateKey\<close>. Each \<open>Check\<close>
  method walks the batch, mutates the \<open>test_info\<close> of the keys through
  \<open>util.SetTestResult\<close> and \<open>util.AttachInfo\<close>, emits warnings through \<open>logging.warning\<close>
  and returns the local flag \<open>any_weak\<close>.

  The batch is modelled as a list of key values addressed by position, the mutation as
  explicit state passing over that list, the warnings as a list in emission order.
  A list of values is a batch of pairwise distinct objects. Where it matters that one
  object can occur several times in a batch (how often a result slot is written), the
  checks are run on a list of references into a store of objects instead.
\<close>

datatype SeverityType =
  SEVERITY_UNKNOWN | SEVERITY_LOW | SEVERITY_MEDIUM | SEVERITY_HIGH | SEVERITY_CRITICAL

text \<open>The protobuf enum \<open>CurveType\<close> is carried by its number.\<close>

type_synonym CurveType = nat

text \<open>\<open>key.ec_info\<close>: the curve identifier and the raw coordinates (protobuf \<open>bytes\<close>).\<close>

record ECKeyInfo =
  curve_type :: CurveType
  ec_x :: "8 word list"
  ec_y :: "8 word list"

record TestResult =
  severity :: SeverityType
  result :: bool

text \<open>
  Modelled from the spec: \<open>key.test_info\<close> and the two functions of \<open>util\<close> writing into it
  (\<open>util.SetTestResult\<close>, \<open>util.AttachInfo\<close>) are not part of the source file. The spec
  gives the interface \<open>setResult(artifact, severity, flagged)\<close> and
  \<open>attachInfo(artifact, name, value)\<close>; the model keeps, per key, every result written
  and every diagnostic attached, in call order.
\<close>

record TestInfo =
  test_results :: "TestResult list"
  attached_info :: "(string \<times> string) list"

definition SetTestResult :: "TestInfo \<Rightarrow> TestResult \<Rightarrow> TestInfo" where
  "SetTestResult ti r = ti\<lparr>test_results := test_results ti @ [r]\<rparr>"

definition AttachInfo :: "TestInfo \<Rightarrow> string \<Rightarrow> string \<Rightarrow> TestInfo" where
  "AttachInfo ti name v = ti\<lparr>attached_info := attached_info ti @ [(name, v)]\<rparr>"

record ECKey =
  ec_info :: ECKeyInfo
  test_info :: TestInfo

text \<open>
  A point is a coordinate pair or the point at infinity (\<open>None\<close>). Of a curve the checks
  read the group order \<open>n\<close> only; the record keeps the other parameters the spec lists.
\<close>

type_synonym Point = "(int \<times> int) option"

record Curve =
  curve_p :: int
  curve_a :: int
  curve_b :: int
  curve_g :: "int \<times> int"
  curve_n :: int
  curve_h :: int

text \<open>
  What the module imports and does not define is a parameter of the model:
  the dictionary \<open>ec_util.CURVE_FACTORY\<close> (an association list in insertion order, a
  stored value may be \<open>None\<close>), \<open>ec_util.PublicPoint\<close>, the curve methods
  \<open>IsValidPublicKey\<close> and \<open>ExtendedBatchDL\<close>, and the constant
  \<open>consts.INFO_NAME_DISCRETE_LOG\<close>.
\<close>

record environment =
  CURVE_FACTORY :: "(CurveType \<times> Curve option) list"
  PublicPoint :: "ECKeyInfo \<Rightarrow> Point"
  IsValidPublicKey :: "Curve \<Rightarrow> Point \<Rightarrow> bool"
  ExtendedBatchDL :: "Curve \<Rightarrow> Point list \<Rightarrow> int option list"
  INFO_NAME_DISCRETE_LOG :: string

text \<open>\<open>d.get(k, None)\<close>: a missing key and a key stored with \<open>None\<close> both give \<open>None\<close>.\<close>

definition dict_get :: "('k \<times> 'v option) list \<Rightarrow> 'k \<Rightarrow> 'v option" where
  "dict_get d k = (case map_of d k of None \<Rightarrow> None | Some v \<Rightarrow> v)"

text \<open>The warnings of the module, one constructor per format string.\<close>

datatype warning =
  Unknown_curve ECKeyInfo
  | Invalid_public_key ECKeyInfo
  | Weak_curve ECKeyInfo
  | Discrete_logarithm_found string ECKeyInfo

text \<open>The check object: \<open>__init__\<close> stores the severity handed to the base class.\<close>

record BaseCheck =
  check_severity :: SeverityType

definition CheckValidECKey_init :: BaseCheck where
  "CheckValidECKey_init = \<lparr>check_severity = SEVERITY_MEDIUM\<rparr>"

definition CheckWeakCurve_init :: BaseCheck where
  "CheckWeakCurve_init = \<lparr>check_severity = SEVERITY_MEDIUM\<rparr>"

definition CheckWeakECPrivateKey_init :: BaseCheck where
  "CheckWeakECPrivateKey_init = \<lparr>check_severity = SEVERITY_CRITICAL\<rparr>"

text \<open>
  Modelled from the spec: \<open>base_check.ECKeyCheck._CreateTestResult\<close> is not part of the
  source file. The spec's CheckResult is a flag, initially unset, with the fixed severity
  of the check.
\<close>

definition CreateTestResult :: "BaseCheck \<Rightarrow> TestResult" where
  "CreateTestResult self = \<lparr>severity = check_severity self, result = False\<rparr>"

text \<open>The state a \<open>Check\<close> call runs on: the batch, the warnings emitted, the local flag.\<close>

record state =
  artifacts :: "ECKey list"
  logging :: "warning list"
  any_weak :: bool

definition init_state :: "ECKey list \<Rightarrow> state" where
  "init_state arts = \<lparr>artifacts = arts, logging = [], any_weak = False\<rparr>"

text \<open>A call \<open>util.f(key.test_info, ...)\<close> on the key at position \<open>k\<close> of the batch.\<close>

definition on_test_info :: "nat \<Rightarrow> (TestInfo \<Rightarrow> TestInfo) \<Rightarrow> state \<Rightarrow> state" where
  "on_test_info k f s =
     s\<lparr>artifacts := (artifacts s)[k := (artifacts s ! k)\<lparr>test_info := f (test_info (artifacts s ! k))\<rparr>]\<rparr>"

definition warn :: "warning \<Rightarrow> state \<Rightarrow> state" where
  "warn w s = s\<lparr>logging := logging s @ [w]\<rparr>"

section \<open>Builtins of the language\<close>

text \<open>\<open>int.bit_length()\<close>: the number of bits of the absolute value, 0 for 0.\<close>

fun bit_length_nat :: "nat \<Rightarrow> nat" where
  "bit_length_nat m = (if m = 0 then 0 else Suc (bit_length_nat (m div 2)))"

declare bit_length_nat.simps [simp del]

definition bit_length :: "int \<Rightarrow> nat" where
  "bit_length v = bit_length_nat (nat \<bar>v\<bar>)"

text \<open>\<open>format(v, "x")\<close>: lowercase hexadecimal, no prefix, a minus sign for a negative value.\<close>

definition hex_digit :: "nat \<Rightarrow> char" where
  "hex_digit d = ''0123456789abcdef'' ! d"

fun hex_nat :: "nat \<Rightarrow> string" where
  "hex_nat m = (if m < 16 then [hex_digit m] else hex_nat (m div 16) @ [hex_digit (m mod 16)])"

declare hex_nat.simps [simp del]

definition format_x :: "int \<Rightarrow> string" where
  "format_x v = (if v < 0 then CHR ''-'' # hex_nat (nat (- v)) else hex_nat (nat v))"

text \<open>Reading a string of hexadecimal digits back, to state what \<open>format_x\<close> renders.\<close>

definition hex_digit_value :: "char \<Rightarrow> nat" where
  "hex_digit_value c = length (takeWhile (\<lambda>d. d \<noteq> c) ''0123456789abcdef'')"

definition hex_value :: "string \<Rightarrow> nat" where
  "hex_value cs = foldl (\<lambda>acc c. 16 * acc + hex_digit_value c) 0 cs"

section \<open>The three checks\<close>

subsection \<open>\<open>CheckValidECKey.Check\<close>\<close>

text \<open>The body of \<open>for key in artifacts\<close>, for the key at position \<open>i\<close>.\<close>

definition CheckValidECKey_body :: "environment \<Rightarrow> BaseCheck \<Rightarrow> nat \<Rightarrow> state \<Rightarrow> state" where
  "CheckValidECKey_body E self i s =
     (let key = artifacts s ! i;
          test_result = CreateTestResult self;
          curve = dict_get (CURVE_FACTORY E) (curve_type (ec_info key))
      in case curve of
           None \<Rightarrow>
             (let s1 = warn (Unknown_curve (ec_info key)) s;
                  s2 = s1\<lparr>any_weak := True\<rparr>;
                  test_result1 = test_result\<lparr>result := True\<rparr>
              in on_test_info i (\<lambda>ti. SetTestResult ti test_result1) s2)
         | Some c \<Rightarrow>
             if \<not> IsValidPublicKey E c (PublicPoint E (ec_info key)) then
               (let s1 = warn (Invalid_public_key (ec_info key)) s;
                    s2 = s1\<lparr>any_weak := True\<rparr>;
                    test_result1 = test_result\<lparr>result := True\<rparr>
                in on_test_info i (\<lambda>ti. SetTestResult ti test_result1) s2)
             else on_test_info i (\<lambda>ti. SetTestResult ti test_result) s)"

definition CheckValidECKey_Check :: "environment \<Rightarrow> BaseCheck \<Rightarrow> ECKey list \<Rightarrow> state" where
  "CheckValidECKey_Check E self arts =
     fold (CheckValidECKey_body E self) [0..<length arts] (init_state arts)"

subsection \<open>\<open>CheckWeakCurve.Check\<close>\<close>

definition minimal_bit_length :: nat where
  "minimal_bit_length = 224"

definition CheckWeakCurve_body :: "environment \<Rightarrow> BaseCheck \<Rightarrow> nat \<Rightarrow> state \<Rightarrow> state" where
  "CheckWeakCurve_body E self i s =
     (let key = artifacts s ! i;
          curve = dict_get (CURVE_FACTORY E) (curve_type (ec_info key))
      in case curve of
           None \<Rightarrow> s
         | Some c \<Rightarrow>
             (let test_result = CreateTestResult self
              in if bit_length (curve_n c) < minimal_bit_length then
                   (let s1 = warn (Weak_curve (ec_info key)) s;
                        s2 = s1\<lparr>any_weak := True\<rparr>;
                        test_result1 = test_result\<lparr>result := True\<rparr>
                    in on_test_info i (\<lambda>ti. SetTestResult ti test_result1) s2)
                 else on_test_info i (\<lambda>ti. SetTestResult ti test_result) s))"

definition CheckWeakCurve_Check :: "environment \<Rightarrow> BaseCheck \<Rightarrow> ECKey list \<Rightarrow> state" where
  "CheckWeakCurve_Check E self arts =
     fold (CheckWeakCurve_body E self) [0..<length arts] (init_state arts)"

subsection \<open>\<open>CheckWeakECPrivateKey.Check\<close>\<close>

text \<open>
  \<open>discrete_logs[i]\<close> raises \<open>IndexError\<close> when \<open>ExtendedBatchDL\<close> returned fewer entries
  than it was given points; the call then does not return.
\<close>

datatype py_exception = IndexError

text \<open>
  The inner loop \<open>for i, key in enumerate(keys)\<close>; a key is the position of the object in
  the batch, so that the writes reach the batch as they do through the reference.
\<close>

fun keys_loop ::
  "environment \<Rightarrow> BaseCheck \<Rightarrow> int option list \<Rightarrow> (nat \<times> nat) list \<Rightarrow> state
    \<Rightarrow> py_exception + state" where
  "keys_loop E self discrete_logs [] s = Inr s"
| "keys_loop E self discrete_logs ((i, key) # rest) s =
     (let test_result = CreateTestResult self
      in if i < length discrete_logs then
           (case discrete_logs ! i of
              Some v \<Rightarrow>
                (let discrete_log = format_x v;
                     s1 = warn (Discrete_logarithm_found discrete_log (ec_info (artifacts s ! key))) s;
                     s2 = on_test_info key
                            (\<lambda>ti. AttachInfo ti (INFO_NAME_DISCRETE_LOG E) discrete_log) s1;
                     s3 = s2\<lparr>any_weak := True\<rparr>;
                     test_result1 = test_result\<lparr>result := True\<rparr>
                 in keys_loop E self discrete_logs rest
                      (on_test_info key (\<lambda>ti. SetTestResult ti test_result1) s3))
            | None \<Rightarrow>
                keys_loop E self discrete_logs rest
                  (on_test_info key (\<lambda>ti. SetTestResult ti test_result) s))
         else Inl IndexError)"

text \<open>The outer loop \<open>for curve_id, curve in ec_util.CURVE_FACTORY.items()\<close>.\<close>

fun factory_loop ::
  "environment \<Rightarrow> BaseCheck \<Rightarrow> (CurveType \<times> Curve option) list \<Rightarrow> state
    \<Rightarrow> py_exception + state" where
  "factory_loop E self [] s = Inr s"
| "factory_loop E self ((curve_id, curve) # rest) s =
     (case curve of
        None \<Rightarrow> factory_loop E self rest s
      | Some c \<Rightarrow>
          (let keys = filter (\<lambda>k. curve_type (ec_info (artifacts s ! k)) = curve_id)
                        [0..<length (artifacts s)]
           in if keys = [] then factory_loop E self rest s
              else
                (let points = map (\<lambda>k. PublicPoint E (ec_info (artifacts s ! k))) keys;
                     discrete_logs = ExtendedBatchDL E c points
                 in case keys_loop E self discrete_logs (enumerate 0 keys) s of
                      Inl e \<Rightarrow> Inl e
                    | Inr s' \<Rightarrow> factory_loop E self rest s')))"

definition CheckWeakECPrivateKey_Check ::
  "environment \<Rightarrow> BaseCheck \<Rightarrow> ECKey list \<Rightarrow> py_exception + state" where
  "CheckWeakECPrivateKey_Check E self arts =
     factory_loop E self (CURVE_FACTORY E) (init_state arts)"

subsection \<open>The batch as a list of references\<close>

text \<open>
  The batch as the interpreter holds it: a list of references to key objects. The store
  is the list of the objects (\<open>artifacts\<close> of the state), a reference is a position in the
  store, and one object may be referenced from several places of the batch. The loop
  bodies above already take the reference of the key they work on; the functions below
  run them over a batch of references. The three checks as defined above are these at
  the batch \<open>[0..<length arts]\<close>, in which every object is referenced once.
\<close>

definition CheckValidECKey_Check_on ::
  "environment \<Rightarrow> BaseCheck \<Rightarrow> nat list \<Rightarrow> ECKey list \<Rightarrow> state" where
  "CheckValidECKey_Check_on E self batch objs =
     fold (CheckValidECKey_body E self) batch (init_state objs)"

definition CheckWeakCurve_Check_on ::
  "environment \<Rightarrow> BaseCheck \<Rightarrow> nat list \<Rightarrow> ECKey list \<Rightarrow> state" where
  "CheckWeakCurve_Check_on E self batch objs =
     fold (CheckWeakCurve_body E self) batch (init_state objs)"

fun factory_loop_on ::
  "environment \<Rightarrow> BaseCheck \<Rightarrow> nat list \<Rightarrow> (CurveType \<times> Curve option) list \<Rightarrow> state
    \<Rightarrow> py_exception + state" where
  "factory_loop_on E self batch [] s = Inr s"
| "factory_loop_on E self batch ((curve_id, curve) # rest) s =
     (case curve of
        None \<Rightarrow> factory_loop_on E self batch rest s
      | Some c \<Rightarrow>
          (let keys = filter (\<lambda>k. curve_type (ec_info (artifacts s ! k)) = curve_id) batch
           in if keys = [] then factory_loop_on E self batch rest s
              else
                (let points = map (\<lambda>k. PublicPoint E (ec_info (artifacts s ! k))) keys;
                     discrete_logs = ExtendedBatchDL E c points
                 in case keys_loop E self discrete_logs (enumerate 0 keys) s of
                      Inl e \<Rightarrow> Inl e
                    | Inr s' \<Rightarrow> factory_loop_on E self batch rest s')))"

definition CheckWeakECPrivateKey_Check_on ::
  "environment \<Rightarrow> BaseCheck \<Rightarrow> nat list \<Rightarrow> ECKey list \<Rightarrow> py_exception + state" where
  "CheckWeakECPrivateKey_Check_on E self batch objs =
     factory_loop_on E self batch (CURVE_FACTORY E) (init_state objs)"

section \<open>What a run does to one key, in closed form\<close>

text \<open>
  The functions below describe the effect of a loop on one key. They are used to state
  and prove the properties of the checks; each is connected to the code by a lemma.
\<close>

definition key_step :: "(ECKey \<Rightarrow> ECKey) \<Rightarrow> (ECKey \<Rightarrow> warning list) \<Rightarrow> (ECKey \<Rightarrow> bool) \<Rightarrow> nat \<Rightarrow> state \<Rightarrow> state" where
  "key_step g w fl i s =
     s\<lparr>artifacts := (artifacts s)[i := g (artifacts s ! i)],
       logging := logging s @ w (artifacts s ! i),
       any_weak := any_weak s \<or> fl (artifacts s ! i)\<rparr>"

definition add_result :: "BaseCheck \<Rightarrow> bool \<Rightarrow> ECKey \<Rightarrow> ECKey" where
  "add_result self fl key =
     key\<lparr>test_info := SetTestResult (test_info key) \<lparr>severity = check_severity self, result = fl\<rparr>\<rparr>"

definition valid_flag :: "environment \<Rightarrow> ECKeyInfo \<Rightarrow> bool" where
  "valid_flag E e = (case dict_get (CURVE_FACTORY E) (curve_type e) of
       None \<Rightarrow> True | Some c \<Rightarrow> \<not> IsValidPublicKey E c (PublicPoint E e))"

definition valid_warnings :: "environment \<Rightarrow> ECKeyInfo \<Rightarrow> warning list" where
  "valid_warnings E e = (case dict_get (CURVE_FACTORY E) (curve_type e) of
       None \<Rightarrow> [Unknown_curve e]
     | Some c \<Rightarrow> if \<not> IsValidPublicKey E c (PublicPoint E e) then [Invalid_public_key e] else [])"

definition weak_flag :: "environment \<Rightarrow> ECKeyInfo \<Rightarrow> bool option" where
  "weak_flag E e = (case dict_get (CURVE_FACTORY E) (curve_type e) of
       None \<Rightarrow> None | Some c \<Rightarrow> Some (bit_length (curve_n c) < 224))"

definition priv_update :: "environment \<Rightarrow> BaseCheck \<Rightarrow> int option \<Rightarrow> ECKey \<Rightarrow> ECKey" where
  "priv_update E self dl key = (case dl of
       None \<Rightarrow> add_result self False key
     | Some v \<Rightarrow> add_result self True
         (key\<lparr>test_info := AttachInfo (test_info key) (INFO_NAME_DISCRETE_LOG E) (format_x v)\<rparr>))"

definition batch_keys :: "ECKeyInfo list \<Rightarrow> CurveType \<Rightarrow> nat list" where
  "batch_keys infos cid = filter (\<lambda>k. curve_type (infos ! k) = cid) [0..<length infos]"

definition batch_points :: "environment \<Rightarrow> ECKeyInfo list \<Rightarrow> CurveType \<Rightarrow> Point list" where
  "batch_points E infos cid = map (\<lambda>k. PublicPoint E (infos ! k)) (batch_keys infos cid)"

definition batch_index :: "ECKeyInfo list \<Rightarrow> nat \<Rightarrow> nat" where
  "batch_index infos i = length (filter (\<lambda>k. curve_type (infos ! k) = curve_type (infos ! i)) [0..<i])"

definition priv_dl :: "environment \<Rightarrow> (CurveType \<times> Curve option) list \<Rightarrow> ECKeyInfo list \<Rightarrow> nat \<Rightarrow> int option option" where
  "priv_dl E F infos i = (case dict_get F (curve_type (infos ! i)) of
       None \<Rightarrow> None
     | Some c \<Rightarrow> Some (ExtendedBatchDL E c (batch_points E infos (curve_type (infos ! i))) ! batch_index infos i))"

definition priv_key :: "environment \<Rightarrow> BaseCheck \<Rightarrow> int option option \<Rightarrow> ECKey \<Rightarrow> ECKey" where
  "priv_key E self r key = (case r of None \<Rightarrow> key | Some dl \<Rightarrow> priv_update E self dl key)"

definition batch_found :: "environment \<Rightarrow> ECKeyInfo list \<Rightarrow> CurveType \<times> Curve option \<Rightarrow> bool" where
  "batch_found E infos item = (case snd item of
       None \<Rightarrow> False
     | Some c \<Rightarrow> list_ex (\<lambda>d. d \<noteq> None) (ExtendedBatchDL E c (batch_points E infos (fst item))))"

text \<open>
  What one run added to a key: the results written and the diagnostics attached between
  the key as handed in (\<open>before\<close>) and the key as left by the run (\<open>after\<close>).
\<close>

definition new_results :: "ECKey \<Rightarrow> ECKey \<Rightarrow> TestResult list" where
  "new_results before after =
     drop (length (test_results (test_info before))) (test_results (test_info after))"

definition new_info :: "ECKey \<Rightarrow> ECKey \<Rightarrow> (string \<times> string) list" where
  "new_info before after =
     drop (length (attached_info (test_info before))) (attached_info (test_info after))"

text \<open>
  A concrete environment and batch, on which the theorems are instantiated. The two
  curve methods are small stand-ins for the collaborators; only the theorems'
  instances are evaluated on them, the theorems hold for every environment.
\<close>

definition bytes_to_int :: "8 word list \<Rightarrow> int" where
  "bytes_to_int bs = foldl (\<lambda>acc b. 256 * acc + uint b) 0 bs"

definition fixture_curve_224 :: Curve where
  "fixture_curve_224 =
     \<lparr>curve_p = 23, curve_a = 1, curve_b = 1, curve_g = (0, 1), curve_n = 2 ^ 223, curve_h = 1\<rparr>"

definition fixture_curve_223 :: Curve where
  "fixture_curve_223 =
     \<lparr>curve_p = 23, curve_a = 1, curve_b = 1, curve_g = (0, 1), curve_n = 2 ^ 223 - 1, curve_h = 1\<rparr>"

definition fixture_env :: environment where
  "fixture_env =
     \<lparr>CURVE_FACTORY = [(2, Some fixture_curve_224), (3, Some fixture_curve_223), (4, None)],
      PublicPoint = (\<lambda>e. Some (bytes_to_int (ec_x e), bytes_to_int (ec_y e))),
      IsValidPublicKey = (\<lambda>c pt. case pt of
          None \<Rightarrow> False
        | Some (x, y) \<Rightarrow> (y * y - (x * x * x + curve_a c * x + curve_b c)) mod curve_p c = 0),
      ExtendedBatchDL = (\<lambda>c pts. map (\<lambda>pt. case pt of
          None \<Rightarrow> None
        | Some (x, y) \<Rightarrow> if x < 16 then Some x else None) pts),
      INFO_NAME_DISCRETE_LOG = ''discrete_log''\<rparr>"

definition fixture_key :: "CurveType \<Rightarrow> 8 word list \<Rightarrow> 8 word list \<Rightarrow> ECKey" where
  "fixture_key cid x y =
     \<lparr>ec_info = \<lparr>curve_type = cid, ec_x = x, ec_y = y\<rparr>,
      test_info = \<lparr>test_results = [], attached_info = []\<rparr>\<rparr>"

definition fixture_batch :: "ECKey list" where
  "fixture_batch =
     [fixture_key 2 [0] [1], fixture_key 7 [5] [5], fixture_key 3 [200] [3],
      fixture_key 2 [10] [2], fixture_key 4 [1] [1]]"

text \<open>Two objects and a batch that references the first of them twice.\<close>

definition fixture_objects :: "ECKey list" where
  "fixture_objects = [fixture_key 2 [0] [1], fixture_key 7 [5] [5]]"

definition fixture_aliased_batch :: "nat list" where
  "fixture_aliased_batch = [0, 0, 1]"

text \<open>A key counts as flagged by a run when the run wrote a result with the flag set.\<close>

definition flagged :: "ECKey \<Rightarrow> ECKey \<Rightarrow> bool" where
  "flagged before after = list_ex result (new_results before after)"

definition any_flagged :: "ECKey list \<Rightarrow> ECKey list \<Rightarrow> bool" where
  "any_flagged arts arts' = list_ex (\<lambda>(before, after). flagged before after) (zip arts arts')"

text \<open>The registry without the entries whose stored curve is \<open>None\<close>.\<close>

definition without_none_entries :: "environment \<Rightarrow> environment" where
  "without_none_entries E =
     E\<lparr>CURVE_FACTORY := filter (\<lambda>(k, v). v \<noteq> None) (CURVE_FACTORY E)\<rparr>"

section \<open>The loops in closed form\<close>

lemma fold_key_step:
  "k \<le> length (artifacts s) \<Longrightarrow>
   fold (key_step g w fl) [0..<k] s =
     s\<lparr>artifacts := map g (take k (artifacts s)) @ drop k (artifacts s),
       logging := logging s @ concat (map w (take k (artifacts s))),
       any_weak := any_weak s \<or> list_ex fl (take k (artifacts s))\<rparr>"
proof (induction k)
  case 0
  then show ?case by simp
next
  case (Suc k)
  then have k: "k < length (artifacts s)" by simp
  have nth: "(map g (take k (artifacts s)) @ drop k (artifacts s)) ! k = artifacts s ! k"
    using k by (simp add: nth_append)
  have upd: "(map g (take k (artifacts s)) @ drop k (artifacts s))[k := y]
      = map g (take k (artifacts s)) @ y # drop (Suc k) (artifacts s)" for y
  proof -
    have "drop k (artifacts s) = artifacts s ! k # drop (Suc k) (artifacts s)"
      using k by (simp add: Cons_nth_drop_Suc)
    then show ?thesis using k by (simp add: list_update_append)
  qed
  show ?case
    using Suc.IH k
    by (simp add: key_step_def nth upd take_Suc_conv_app_nth)
qed

lemma CheckValidECKey_body_step:
  "CheckValidECKey_body E self =
     key_step (\<lambda>key. add_result self (valid_flag E (ec_info key)) key)
       (\<lambda>key. valid_warnings E (ec_info key)) (\<lambda>key. valid_flag E (ec_info key))"
  by (intro ext)
    (simp add: CheckValidECKey_body_def key_step_def add_result_def valid_flag_def
      valid_warnings_def on_test_info_def warn_def CreateTestResult_def Let_def
      split: option.splits)

lemma CheckWeakCurve_body_step:
  "CheckWeakCurve_body E self =
     key_step (\<lambda>key. case weak_flag E (ec_info key) of None \<Rightarrow> key | Some fl \<Rightarrow> add_result self fl key)
       (\<lambda>key. if weak_flag E (ec_info key) = Some True then [Weak_curve (ec_info key)] else [])
       (\<lambda>key. weak_flag E (ec_info key) = Some True)"
  by (intro ext)
    (simp add: CheckWeakCurve_body_def key_step_def add_result_def weak_flag_def
      on_test_info_def warn_def CreateTestResult_def Let_def minimal_bit_length_def
      split: option.splits)

lemma CheckValidECKey_Check_eq:
  "CheckValidECKey_Check E self arts =
     \<lparr>artifacts = map (\<lambda>key. add_result self (valid_flag E (ec_info key)) key) arts,
      logging = concat (map (\<lambda>key. valid_warnings E (ec_info key)) arts),
      any_weak = list_ex (\<lambda>key. valid_flag E (ec_info key)) arts\<rparr>"
  by (simp add: CheckValidECKey_Check_def CheckValidECKey_body_step fold_key_step init_state_def)

lemma CheckWeakCurve_Check_eq:
  "CheckWeakCurve_Check E self arts =
     \<lparr>artifacts = map (\<lambda>key. case weak_flag E (ec_info key) of None \<Rightarrow> key | Some fl \<Rightarrow> add_result self fl key) arts,
      logging = concat (map (\<lambda>key. if weak_flag E (ec_info key) = Some True then [Weak_curve (ec_info key)] else []) arts),
      any_weak = list_ex (\<lambda>key. weak_flag E (ec_info key) = Some True) arts\<rparr>"
  by (simp add: CheckWeakCurve_Check_def CheckWeakCurve_body_step fold_key_step init_state_def)

lemma bit_length_nat_le: "bit_length_nat m \<le> k \<longleftrightarrow> m < 2 ^ k"
proof (induction m arbitrary: k rule: bit_length_nat.induct)
  case (1 m)
  show ?case
  proof (cases "m = 0")
    case True then show ?thesis by (subst bit_length_nat.simps) simp
  next
    case False
    show ?thesis
    proof (cases k)
      case 0
      with False show ?thesis by (subst bit_length_nat.simps) simp
    next
      case (Suc k')
      have "bit_length_nat m \<le> Suc k' \<longleftrightarrow> bit_length_nat (m div 2) \<le> k'"
        using False by (subst bit_length_nat.simps) simp
      also have "\<dots> \<longleftrightarrow> m div 2 < 2 ^ k'" using 1[OF False] by simp
      also have "\<dots> \<longleftrightarrow> m < 2 ^ Suc k'" by auto
      finally show ?thesis using Suc by simp
    qed
  qed
qed

lemma bit_length_less: "bit_length v < Suc k \<longleftrightarrow> \<bar>v\<bar> < 2 ^ k"
proof -
  have "bit_length v < Suc k \<longleftrightarrow> nat \<bar>v\<bar> < 2 ^ k"
    using bit_length_nat_le[of "nat \<bar>v\<bar>" k] by (simp add: bit_length_def less_Suc_eq_le)
  also have "\<dots> \<longleftrightarrow> \<bar>v\<bar> < 2 ^ k"
    by (metis abs_ge_zero nat_less_iff of_nat_numeral of_nat_power)
  finally show ?thesis .
qed

lemma ec_info_priv_update [simp]: "ec_info (priv_update E self dl key) = ec_info key"
  by (simp add: priv_update_def add_result_def split: option.splits)

lemma keys_loop_char:
  assumes "distinct keys" "\<forall>k\<in>set keys. k < length (artifacts s)"
    "n + length keys \<le> length dls"
  shows "\<exists>s'. keys_loop E self dls (enumerate n keys) s = Inr s'
     \<and> length (artifacts s') = length (artifacts s)
     \<and> (\<forall>j<length keys. artifacts s' ! (keys ! j)
           = priv_update E self (dls ! (n + j)) (artifacts s ! (keys ! j)))
     \<and> (\<forall>k. k \<notin> set keys \<longrightarrow> artifacts s' ! k = artifacts s ! k)
     \<and> any_weak s' = (any_weak s \<or> (\<exists>j<length keys. dls ! (n + j) \<noteq> None))"
  using assms
proof (induction keys arbitrary: n s)
  case Nil
  then show ?case by simp
next
  case (Cons k ks)
  define s1 where "s1 = (case dls ! n of
      None \<Rightarrow> on_test_info k (\<lambda>ti. SetTestResult ti (CreateTestResult self)) s
    | Some v \<Rightarrow> on_test_info k (\<lambda>ti. SetTestResult ti ((CreateTestResult self)\<lparr>result := True\<rparr>))
        ((on_test_info k (\<lambda>ti. AttachInfo ti (INFO_NAME_DISCRETE_LOG E) (format_x v))
           (warn (Discrete_logarithm_found (format_x v) (ec_info (artifacts s ! k))) s))\<lparr>any_weak := True\<rparr>))"
  have n: "n < length dls" using Cons.prems by simp
  have k: "k < length (artifacts s)" using Cons.prems by simp
  have step: "keys_loop E self dls (enumerate n (k # ks)) s = keys_loop E self dls (enumerate (Suc n) ks) s1"
    using n by (simp add: s1_def Let_def split: option.splits)
  have arts1: "artifacts s1 = (artifacts s)[k := priv_update E self (dls ! n) (artifacts s ! k)]"
    using k by (simp add: s1_def on_test_info_def warn_def priv_update_def add_result_def
        CreateTestResult_def split: option.splits)
  have weak1: "any_weak s1 = (any_weak s \<or> dls ! n \<noteq> None)"
    by (simp add: s1_def on_test_info_def warn_def split: option.splits)
  have len1: "length (artifacts s1) = length (artifacts s)" by (simp add: arts1)
  have "distinct ks" "\<forall>k\<in>set ks. k < length (artifacts s1)" "Suc n + length ks \<le> length dls"
    using Cons.prems by (simp_all add: len1)
  from Cons.IH[OF this] obtain s' where s':
    "keys_loop E self dls (enumerate (Suc n) ks) s1 = Inr s'"
    "length (artifacts s') = length (artifacts s1)"
    "\<forall>j<length ks. artifacts s' ! (ks ! j) = priv_update E self (dls ! (Suc n + j)) (artifacts s1 ! (ks ! j))"
    "\<forall>k. k \<notin> set ks \<longrightarrow> artifacts s' ! k = artifacts s1 ! k"
    "any_weak s' = (any_weak s1 \<or> (\<exists>j<length ks. dls ! (Suc n + j) \<noteq> None))"
    by blast
  have kks: "k \<notin> set ks" using Cons.prems by simp
  have A: "\<forall>j<length (k # ks). artifacts s' ! ((k # ks) ! j)
           = priv_update E self (dls ! (n + j)) (artifacts s ! ((k # ks) ! j))"
  proof (intro allI impI)
    fix j assume j: "j < length (k # ks)"
    show "artifacts s' ! ((k # ks) ! j) = priv_update E self (dls ! (n + j)) (artifacts s ! ((k # ks) ! j))"
    proof (cases j)
      case 0
      then show ?thesis using s'(4) kks k by (simp add: arts1)
    next
      case (Suc j')
      then have j': "j' < length ks" using j by simp
      then have "ks ! j' \<noteq> k" using kks nth_mem by metis
      then show ?thesis using s'(3) j' Suc by (simp add: arts1)
    qed
  qed
  have B: "\<forall>k'. k' \<notin> set (k # ks) \<longrightarrow> artifacts s' ! k' = artifacts s ! k'"
    using s'(4) by (simp add: arts1)
  have C: "any_weak s' = (any_weak s \<or> (\<exists>j<length (k # ks). dls ! (n + j) \<noteq> None))"
  proof -
    have "(\<exists>j<length (k # ks). dls ! (n + j) \<noteq> None)
        \<longleftrightarrow> (dls ! n \<noteq> None \<or> (\<exists>j<length ks. dls ! (Suc n + j) \<noteq> None))"
      (is "?L \<longleftrightarrow> ?R")
    proof
      assume ?L
      then obtain j where j: "j < length (k # ks)" "dls ! (n + j) \<noteq> None" by blast
      show ?R
      proof (cases j)
        case 0 then show ?thesis using j by simp
      next
        case (Suc j') then show ?thesis using j by auto
      qed
    next
      assume ?R
      then show ?L
      proof
        assume "dls ! n \<noteq> None"
        then have "0 < length (k # ks) \<and> dls ! (n + 0) \<noteq> None" by simp
        then show ?L by blast
      next
        assume "\<exists>j<length ks. dls ! (Suc n + j) \<noteq> None"
        then obtain j where "j < length ks" "dls ! (Suc n + j) \<noteq> None" by blast
        then have "Suc j < length (k # ks) \<and> dls ! (n + Suc j) \<noteq> None" by simp
        then show ?L by blast
      qed
    qed
    then show ?thesis using s'(5) weak1 by blast
  qed
  show ?case
    using step s'(1) s'(2) len1 A B C by simp
qed

lemma filter_upt_nth:
  assumes "k < n" "Q k"
  shows "filter Q [0..<n] ! length (filter Q [0..<k]) = k"
    and "length (filter Q [0..<k]) < length (filter Q [0..<n])"
proof -
  have "[0..<n] = [0..<k] @ k # [Suc k..<n]"
    using assms(1) by (metis less_imp_le_nat upt_add_eq_append le0 add_0 upt_conv_Cons le_add_diff_inverse)
  then have "filter Q [0..<n] = filter Q [0..<k] @ k # filter Q [Suc k..<n]"
    using assms(2) by simp
  then show "filter Q [0..<n] ! length (filter Q [0..<k]) = k"
    and "length (filter Q [0..<k]) < length (filter Q [0..<n])"
    by simp_all
qed

lemma filter_upt_index:
  assumes "j < length (filter Q [0..<n])"
  shows "filter Q [0..<n] ! j < n" and "Q (filter Q [0..<n] ! j)"
    and "length (filter Q [0..<filter Q [0..<n] ! j]) = j"
proof -
  let ?ks = "filter Q [0..<n]"
  have "?ks ! j \<in> set ?ks" using assms by (rule nth_mem)
  then have "?ks ! j \<in> {x \<in> set [0..<n]. Q x}" by (simp only: set_filter)
  then show lt: "?ks ! j < n" and q: "Q (?ks ! j)" by simp_all
  have "?ks ! length (filter Q [0..<?ks ! j]) = ?ks ! j"
    and "length (filter Q [0..<?ks ! j]) < length ?ks"
    using filter_upt_nth[of "?ks ! j" n Q] lt q by simp_all
  moreover have "distinct ?ks" by simp
  ultimately show "length (filter Q [0..<?ks ! j]) = j"
    using assms nth_eq_iff_index_eq by blast
qed

lemma batch_keys_code:
  "filter (\<lambda>k. curve_type (ec_info (arts ! k)) = cid) [0..<length arts]
     = batch_keys (map ec_info arts) cid"
  unfolding batch_keys_def by (rule filter_cong) simp_all

lemma batch_points_code:
  "map (\<lambda>k. PublicPoint E (ec_info (arts ! k))) (batch_keys (map ec_info arts) cid)
     = batch_points E (map ec_info arts) cid"
  unfolding batch_points_def by (rule map_cong) (simp_all add: batch_keys_def)

lemma batch_points_filter:
  "batch_points E infos cid = map (PublicPoint E) (filter (\<lambda>e. curve_type e = cid) infos)"
proof -
  have "filter (\<lambda>e. curve_type e = cid) infos
      = filter (\<lambda>e. curve_type e = cid) (map ((!) infos) [0..<length infos])"
    by (simp add: map_nth)
  also have "\<dots> = map ((!) infos) (batch_keys infos cid)"
    by (simp add: filter_map o_def batch_keys_def)
  finally show ?thesis by (simp add: batch_points_def)
qed

lemma dict_get_Cons:
  "dict_get ((k, v) # d) k' = (if k' = k then v else dict_get d k')"
  by (simp add: dict_get_def)

lemma dict_get_notin: "k \<notin> fst ` set d \<Longrightarrow> dict_get d k = None"
proof -
  assume "k \<notin> fst ` set d"
  then have "map_of d k = None" by (simp add: map_of_eq_None_iff)
  then show ?thesis by (simp add: dict_get_def)
qed

lemma factory_loop_char:
  assumes "distinct (map fst F)"
    and "\<forall>c pts. length (ExtendedBatchDL E c pts) = length pts"
  shows "\<exists>s'. factory_loop E self F s = Inr s'
     \<and> length (artifacts s') = length (artifacts s)
     \<and> (\<forall>i<length (artifacts s). artifacts s' ! i
           = priv_key E self (priv_dl E F (map ec_info (artifacts s)) i) (artifacts s ! i))
     \<and> any_weak s' = (any_weak s \<or> list_ex (batch_found E (map ec_info (artifacts s))) F)"
  using assms(1)
proof (induction F arbitrary: s)
  case Nil
  then show ?case by (simp add: priv_dl_def priv_key_def dict_get_def)
next
  case (Cons item F)
  obtain cid curve where item: "item = (cid, curve)" by (cases item)
  have dist: "distinct (map fst F)" and notin: "cid \<notin> fst ` set F"
    using Cons.prems item by simp_all
  let ?infos = "map ec_info (artifacts s)"
  let ?keys = "batch_keys ?infos cid"
  have rest_dl: "priv_dl E F infos i = (if curve_type (infos ! i) = cid then None else priv_dl E (item # F) infos i)" for infos i
    using notin by (simp add: priv_dl_def item dict_get_Cons dict_get_notin)
  show ?case
  proof (cases "curve = None \<or> ?keys = []")
    case True
    then have step: "factory_loop E self (item # F) s = factory_loop E self F s"
      by (auto simp add: item batch_keys_code Let_def split: option.splits)
    have skip: "priv_dl E (item # F) ?infos i = None"
      if "i < length (artifacts s)" "curve_type (?infos ! i) = cid" for i
    proof (cases curve)
      case None
      then show ?thesis using that by (simp add: priv_dl_def item dict_get_Cons)
    next
      case (Some c)
      then have "?keys = []" using True by simp
      moreover have "i \<in> set ?keys" using that by (simp add: batch_keys_def)
      ultimately show ?thesis by simp
    qed
    have nofound: "\<not> batch_found E ?infos item"
    proof (cases curve)
      case None
      then show ?thesis by (simp add: batch_found_def item)
    next
      case (Some c)
      then have "?keys = []" using True by simp
      then have "batch_points E ?infos cid = []" by (simp add: batch_points_def)
      then have "ExtendedBatchDL E c (batch_points E ?infos cid) = []"
        using assms(2) by (metis length_0_conv)
      then show ?thesis by (simp add: batch_found_def item Some)
    qed
    from Cons.IH[OF dist, of s] obtain s' where s':
      "factory_loop E self F s = Inr s'"
      "length (artifacts s') = length (artifacts s)"
      "\<forall>i<length (artifacts s). artifacts s' ! i = priv_key E self (priv_dl E F ?infos i) (artifacts s ! i)"
      "any_weak s' = (any_weak s \<or> list_ex (batch_found E ?infos) F)"
      by blast
    have "\<forall>i<length (artifacts s). artifacts s' ! i
        = priv_key E self (priv_dl E (item # F) ?infos i) (artifacts s ! i)"
    proof (intro allI impI)
      fix i assume i: "i < length (artifacts s)"
      show "artifacts s' ! i = priv_key E self (priv_dl E (item # F) ?infos i) (artifacts s ! i)"
        using s'(3) i skip[OF i] by (simp add: rest_dl)
    qed
    then show ?thesis using step s'(1,2,4) nofound by simp
  next
    case False
    then obtain c where c: "curve = Some c" and ne: "?keys \<noteq> []" by auto
    let ?dls = "ExtendedBatchDL E c (batch_points E ?infos cid)"
    have len: "length ?dls = length ?keys"
      using assms(2) by (simp add: batch_points_def)
    have "distinct ?keys" "\<forall>k\<in>set ?keys. k < length (artifacts s)" "0 + length ?keys \<le> length ?dls"
      using len by (simp_all add: batch_keys_def)
    from keys_loop_char[OF this, of E self] obtain s1 where s1:
      "keys_loop E self ?dls (enumerate 0 ?keys) s = Inr s1"
      "length (artifacts s1) = length (artifacts s)"
      "\<forall>j<length ?keys. artifacts s1 ! (?keys ! j) = priv_update E self (?dls ! j) (artifacts s ! (?keys ! j))"
      "\<forall>k. k \<notin> set ?keys \<longrightarrow> artifacts s1 ! k = artifacts s ! k"
      "any_weak s1 = (any_weak s \<or> (\<exists>j<length ?keys. ?dls ! j \<noteq> None))"
      by auto
    have step: "factory_loop E self (item # F) s = factory_loop E self F s1"
      using ne s1(1) by (simp add: item c batch_keys_code batch_points_code Let_def)
    have at_key: "artifacts s1 ! i = priv_update E self (?dls ! batch_index ?infos i) (artifacts s ! i)"
      if "i < length (artifacts s)" "curve_type (?infos ! i) = cid" for i
    proof -
      let ?Q = "\<lambda>k. curve_type (?infos ! k) = cid"
      have "filter ?Q [0..<length ?infos] ! length (filter ?Q [0..<i]) = i"
        and "length (filter ?Q [0..<i]) < length (filter ?Q [0..<length ?infos])"
        using filter_upt_nth[of i "length ?infos" ?Q] that by simp_all
      then have "?keys ! batch_index ?infos i = i" "batch_index ?infos i < length ?keys"
        using that(2) by (simp_all add: batch_keys_def batch_index_def)
      then show ?thesis using s1(3) by metis
    qed
    have not_key: "artifacts s1 ! i = artifacts s ! i"
      if "i < length (artifacts s)" "curve_type (?infos ! i) \<noteq> cid" for i
      using s1(4) that by (simp add: batch_keys_def)
    have infos1: "map ec_info (artifacts s1) = ?infos"
    proof (rule nth_equalityI)
      show "length (map ec_info (artifacts s1)) = length ?infos" using s1(2) by simp
    next
      fix i assume "i < length (map ec_info (artifacts s1))"
      then have i: "i < length (artifacts s)" using s1(2) by simp
      show "map ec_info (artifacts s1) ! i = ?infos ! i"
        using i s1(2) at_key[OF i] not_key[OF i] by (cases "curve_type (?infos ! i) = cid") simp_all
    qed
    from Cons.IH[OF dist, of s1] obtain s' where s':
      "factory_loop E self F s1 = Inr s'"
      "length (artifacts s') = length (artifacts s1)"
      "\<forall>i<length (artifacts s1). artifacts s' ! i = priv_key E self (priv_dl E F ?infos i) (artifacts s1 ! i)"
      "any_weak s' = (any_weak s1 \<or> list_ex (batch_found E ?infos) F)"
      unfolding infos1 by blast
    have A: "\<forall>i<length (artifacts s). artifacts s' ! i
        = priv_key E self (priv_dl E (item # F) ?infos i) (artifacts s ! i)"
    proof (intro allI impI)
      fix i assume i: "i < length (artifacts s)"
      show "artifacts s' ! i = priv_key E self (priv_dl E (item # F) ?infos i) (artifacts s ! i)"
      proof (cases "curve_type (?infos ! i) = cid")
        case True
        have "priv_dl E (item # F) ?infos i = Some (?dls ! batch_index ?infos i)"
          using True by (simp add: priv_dl_def item c dict_get_Cons)
        then show ?thesis
          using s'(3) i s1(2) at_key[OF i True] True by (simp add: rest_dl priv_key_def)
      next
        case False
        then show ?thesis
          using s'(3) i s1(2) not_key[OF i False] by (simp add: rest_dl)
      qed
    qed
    have "batch_found E ?infos item \<longleftrightarrow> (\<exists>j<length ?keys. ?dls ! j \<noteq> None)"
      using len by (simp add: batch_found_def item c list_ex_length)
    then have B: "any_weak s' = (any_weak s \<or> list_ex (batch_found E ?infos) (item # F))"
      using s'(4) s1(5) by auto
    show ?thesis using step s'(1,2) s1(2) A B by simp
  qed
qed

section \<open>Properties of the checks\<close>

lemma new_results_add_result [simp]:
  "new_results key (add_result self fl key) = [\<lparr>severity = check_severity self, result = fl\<rparr>]"
  by (simp add: new_results_def add_result_def SetTestResult_def)

lemma new_info_add_result [simp]: "new_info key (add_result self fl key) = []"
  by (simp add: new_info_def add_result_def SetTestResult_def)

lemma new_results_same [simp]: "new_results key key = []"
  by (simp add: new_results_def)

lemma new_info_same [simp]: "new_info key key = []"
  by (simp add: new_info_def)

lemma ec_info_add_result [simp]: "ec_info (add_result self fl key) = ec_info key"
  by (simp add: add_result_def)

lemma bit_length_224: "bit_length v < 224 \<longleftrightarrow> \<bar>v\<bar> < 2 ^ 223"
  using bit_length_less[of v 223] by simp

lemma CheckWeakCurve_nth:
  "i < length arts \<Longrightarrow>
   artifacts (CheckWeakCurve_Check E self arts) ! i =
     (case weak_flag E (ec_info (arts ! i)) of
        None \<Rightarrow> arts ! i | Some fl \<Rightarrow> add_result self fl (arts ! i))"
  by (simp add: CheckWeakCurve_Check_eq)

lemma CheckValidECKey_nth:
  "i < length arts \<Longrightarrow>
   artifacts (CheckValidECKey_Check E self arts) ! i =
     add_result self (valid_flag E (ec_info (arts ! i))) (arts ! i)"
  by (simp add: CheckValidECKey_Check_eq)

text \<open>
  Claim C1. For a key whose curve identifier resolves to a curve \<open>c\<close>,
  \<open>CheckWeakCurve.Check\<close> writes one result for the key, flagged if and only if
  \<open>bit_length (curve_n c) < 224\<close>. An order of \<open>2 ^ 223\<close> (224 bits) is not flagged, an
  order of \<open>2 ^ 223 - 1\<close> (223 bits) is.
\<close>

theorem C1_weak_curve_iff_order_below_224_bits:
  assumes "i < length arts"
    and "dict_get (CURVE_FACTORY E) (curve_type (ec_info (arts ! i))) = Some c"
  shows "artifacts (CheckWeakCurve_Check E self arts) ! i
           = (arts ! i)\<lparr>test_info := SetTestResult (test_info (arts ! i))
                \<lparr>severity = check_severity self, result = (bit_length (curve_n c) < 224)\<rparr>\<rparr>
       \<and> (curve_n c = 2 ^ 223 \<longrightarrow>
            new_results (arts ! i) (artifacts (CheckWeakCurve_Check E self arts) ! i)
              = [\<lparr>severity = check_severity self, result = False\<rparr>])
       \<and> (curve_n c = 2 ^ 223 - 1 \<longrightarrow>
            new_results (arts ! i) (artifacts (CheckWeakCurve_Check E self arts) ! i)
              = [\<lparr>severity = check_severity self, result = True\<rparr>])"
proof -
  have wf: "weak_flag E (ec_info (arts ! i)) = Some (bit_length (curve_n c) < 224)"
    using assms(2) by (simp add: weak_flag_def)
  have nth: "artifacts (CheckWeakCurve_Check E self arts) ! i
      = add_result self (bit_length (curve_n c) < 224) (arts ! i)"
    using CheckWeakCurve_nth[OF assms(1), of E self] wf by simp
  have b224: "curve_n c = 2 ^ 223 \<Longrightarrow> \<not> bit_length (curve_n c) < 224"
    by (simp add: bit_length_224)
  have b223: "curve_n c = 2 ^ 223 - 1 \<Longrightarrow> bit_length (curve_n c) < 224"
    by (simp add: bit_length_224)
  show ?thesis
    using b224 b223 by (simp add: nth) (simp add: add_result_def)
qed

theorem C1_witness:
  "(0::nat) < length fixture_batch
   \<and> dict_get (CURVE_FACTORY fixture_env) (curve_type (ec_info (fixture_batch ! 0)))
       = Some fixture_curve_224
   \<and> curve_n fixture_curve_224 = 2 ^ 223
   \<and> new_results (fixture_batch ! 0)
        (artifacts (CheckWeakCurve_Check fixture_env CheckWeakCurve_init fixture_batch) ! 0)
       = [\<lparr>severity = SEVERITY_MEDIUM, result = False\<rparr>]"
proof -
  have h1: "(0::nat) < length fixture_batch"
    by (simp add: fixture_batch_def)
  have h2: "dict_get (CURVE_FACTORY fixture_env) (curve_type (ec_info (fixture_batch ! 0)))
      = Some fixture_curve_224"
    by (simp add: fixture_batch_def fixture_env_def fixture_key_def dict_get_def)
  have n: "curve_n fixture_curve_224 = 2 ^ 223"
    by (simp add: fixture_curve_224_def)
  have sev: "check_severity CheckWeakCurve_init = SEVERITY_MEDIUM"
    by (simp add: CheckWeakCurve_init_def)
  note t = C1_weak_curve_iff_order_below_224_bits[OF h1 h2, of CheckWeakCurve_init]
  have "new_results (fixture_batch ! 0)
        (artifacts (CheckWeakCurve_Check fixture_env CheckWeakCurve_init fixture_batch) ! 0)
       = [\<lparr>severity = check_severity CheckWeakCurve_init, result = False\<rparr>]"
    by (rule mp[OF t[THEN conjunct2, THEN conjunct1] n])
  then show ?thesis using h1 h2 n by (simp only: sev simp_thms)
qed

text \<open>
  Claim C2. \<open>CheckValidECKey.Check\<close> is a total function of the batch (no exception is
  modelled because none can arise in its body). For every key it writes one result,
  flagged exactly when the curve identifier is not found in the registry or
  \<open>IsValidPublicKey\<close> rejects the public point; for an unknown identifier the warning
  \<open>Unknown curve\<close> is emitted for that key.
\<close>

theorem C2_valid_key_flags_unknown_curve_or_invalid_point:
  assumes "i < length arts"
  shows "artifacts (CheckValidECKey_Check E self arts) ! i
           = (arts ! i)\<lparr>test_info := SetTestResult (test_info (arts ! i))
                \<lparr>severity = check_severity self,
                 result = (case dict_get (CURVE_FACTORY E) (curve_type (ec_info (arts ! i))) of
                             None \<Rightarrow> True
                           | Some c \<Rightarrow> \<not> IsValidPublicKey E c (PublicPoint E (ec_info (arts ! i))))\<rparr>\<rparr>
       \<and> (dict_get (CURVE_FACTORY E) (curve_type (ec_info (arts ! i))) = None \<longrightarrow>
            Unknown_curve (ec_info (arts ! i)) \<in> set (logging (CheckValidECKey_Check E self arts)))"
proof -
  have "dict_get (CURVE_FACTORY E) (curve_type (ec_info (arts ! i))) = None \<Longrightarrow>
      Unknown_curve (ec_info (arts ! i)) \<in> set (valid_warnings E (ec_info (arts ! i)))"
    by (simp add: valid_warnings_def)
  moreover have "arts ! i \<in> set arts" using assms by simp
  ultimately have "dict_get (CURVE_FACTORY E) (curve_type (ec_info (arts ! i))) = None \<Longrightarrow>
      Unknown_curve (ec_info (arts ! i)) \<in> set (logging (CheckValidECKey_Check E self arts))"
    unfolding CheckValidECKey_Check_eq by (simp, blast)
  then show ?thesis
    using CheckValidECKey_nth[OF assms, of E self]
    by (simp add: add_result_def valid_flag_def)
qed

theorem C2_witness:
  "(1::nat) < length fixture_batch
   \<and> test_results (test_info (artifacts
        (CheckValidECKey_Check fixture_env CheckValidECKey_init fixture_batch) ! 1))
       = [\<lparr>severity = SEVERITY_MEDIUM, result = True\<rparr>]
   \<and> Unknown_curve \<lparr>curve_type = 7, ec_x = [5], ec_y = [5]\<rparr>
       \<in> set (logging (CheckValidECKey_Check fixture_env CheckValidECKey_init fixture_batch))"
proof -
  have h1: "(1::nat) < length fixture_batch"
    by (simp add: fixture_batch_def)
  have g: "dict_get (CURVE_FACTORY fixture_env) (curve_type (ec_info (fixture_batch ! 1))) = None"
    by (simp add: fixture_batch_def fixture_env_def fixture_key_def dict_get_def)
  have sev: "check_severity CheckValidECKey_init = SEVERITY_MEDIUM"
    by (simp add: CheckValidECKey_init_def)
  note t = C2_valid_key_flags_unknown_curve_or_invalid_point[OF h1, of fixture_env CheckValidECKey_init]
  have a: "test_results (test_info (artifacts
        (CheckValidECKey_Check fixture_env CheckValidECKey_init fixture_batch) ! 1))
       = [\<lparr>severity = SEVERITY_MEDIUM, result = True\<rparr>]"
    unfolding t[THEN conjunct1] g sev
    by (simp add: SetTestResult_def fixture_batch_def fixture_key_def)
  have b: "Unknown_curve (ec_info (fixture_batch ! 1))
       \<in> set (logging (CheckValidECKey_Check fixture_env CheckValidECKey_init fixture_batch))"
    by (rule mp[OF t[THEN conjunct2] g])
  have e: "ec_info (fixture_batch ! 1) = \<lparr>curve_type = 7, ec_x = [5], ec_y = [5]\<rparr>"
    by (simp add: fixture_batch_def fixture_key_def)
  show ?thesis using h1 a b by (simp only: e simp_thms)
qed

text \<open>
  Claim C9. What \<open>CheckWeakCurve.Check\<close> writes for a key depends on the key's curve
  identifier only: two keys with the same identifier, in any two batches and with any
  coordinates, get the same results.
\<close>

theorem C9_weak_curve_depends_on_curve_type_only:
  assumes "i < length arts1" and "j < length arts2"
    and "curve_type (ec_info (arts1 ! i)) = curve_type (ec_info (arts2 ! j))"
  shows "new_results (arts1 ! i) (artifacts (CheckWeakCurve_Check E self arts1) ! i)
       = new_results (arts2 ! j) (artifacts (CheckWeakCurve_Check E self arts2) ! j)"
proof -
  have "weak_flag E (ec_info (arts1 ! i)) = weak_flag E (ec_info (arts2 ! j))"
    using assms(3) by (simp add: weak_flag_def)
  then show ?thesis
    using CheckWeakCurve_nth[OF assms(1), of E self] CheckWeakCurve_nth[OF assms(2), of E self]
    by (simp split: option.splits)
qed

theorem C9_witness:
  "(0::nat) < length fixture_batch \<and> (3::nat) < length fixture_batch
   \<and> curve_type (ec_info (fixture_batch ! 0)) = curve_type (ec_info (fixture_batch ! 3))
   \<and> ec_x (ec_info (fixture_batch ! 0)) \<noteq> ec_x (ec_info (fixture_batch ! 3))
   \<and> new_results (fixture_batch ! 0)
        (artifacts (CheckWeakCurve_Check fixture_env CheckWeakCurve_init fixture_batch) ! 0)
     = new_results (fixture_batch ! 3)
        (artifacts (CheckWeakCurve_Check fixture_env CheckWeakCurve_init fixture_batch) ! 3)"
proof -
  have h1: "(0::nat) < length fixture_batch" and h2: "(3::nat) < length fixture_batch"
    by (simp_all add: fixture_batch_def)
  have h3: "curve_type (ec_info (fixture_batch ! 0)) = curve_type (ec_info (fixture_batch ! 3))"
    by (simp add: fixture_batch_def fixture_key_def)
  have h4: "ec_x (ec_info (fixture_batch ! 0)) \<noteq> ec_x (ec_info (fixture_batch ! 3))"
    by (simp add: fixture_batch_def fixture_key_def)
  note t = C9_weak_curve_depends_on_curve_type_only[OF h1 h2 h3, of fixture_env CheckWeakCurve_init]
  show ?thesis using h1 h2 h3 h4 t by (intro conjI)
qed

lemma new_results_priv_update [simp]:
  "new_results key (priv_update E self dl key)
     = [\<lparr>severity = check_severity self, result = (dl \<noteq> None)\<rparr>]"
  by (simp add: new_results_def priv_update_def add_result_def SetTestResult_def AttachInfo_def
      split: option.splits)

lemma new_info_priv_update [simp]:
  "new_info key (priv_update E self dl key)
     = (case dl of None \<Rightarrow> [] | Some v \<Rightarrow> [(INFO_NAME_DISCRETE_LOG E, format_x v)])"
  by (simp add: new_info_def priv_update_def add_result_def SetTestResult_def AttachInfo_def
      split: option.splits)

lemma any_flagged_nth:
  "length arts' = length arts \<Longrightarrow>
   any_flagged arts arts' \<longleftrightarrow> (\<exists>i<length arts. flagged (arts ! i) (arts' ! i))"
  by (auto simp add: any_flagged_def list_ex_length)

lemma CheckWeakECPrivateKey_char:
  assumes "distinct (map fst (CURVE_FACTORY E))"
    and "\<forall>c pts. length (ExtendedBatchDL E c pts) = length pts"
  shows "\<exists>s'. CheckWeakECPrivateKey_Check E self arts = Inr s'
     \<and> length (artifacts s') = length arts
     \<and> (\<forall>i<length arts. artifacts s' ! i
           = priv_key E self (priv_dl E (CURVE_FACTORY E) (map ec_info arts) i) (arts ! i))
     \<and> any_weak s' = list_ex (batch_found E (map ec_info arts)) (CURVE_FACTORY E)"
  using factory_loop_char[OF assms, of self "init_state arts"]
  by (simp add: CheckWeakECPrivateKey_Check_def init_state_def)

lemma dict_get_distinct:
  assumes "distinct (map fst d)"
  shows "dict_get d k = Some c \<longleftrightarrow> (k, Some c) \<in> set d"
proof
  assume "dict_get d k = Some c"
  then have "map_of d k = Some (Some c)"
    by (simp add: dict_get_def split: option.splits)
  then show "(k, Some c) \<in> set d" by (rule map_of_SomeD)
next
  assume "(k, Some c) \<in> set d"
  then have "map_of d k = Some (Some c)" using assms by (simp add: map_of_is_SomeI)
  then show "dict_get d k = Some c" by (simp add: dict_get_def)
qed

lemma batch_found_iff:
  assumes "distinct (map fst F)"
    and "\<forall>c pts. length (ExtendedBatchDL E c pts) = length pts"
  shows "list_ex (batch_found E infos) F
     \<longleftrightarrow> (\<exists>i<length infos. \<exists>v. priv_dl E F infos i = Some (Some v))"
proof
  assume "list_ex (batch_found E infos) F"
  then obtain item where item: "item \<in> set F" "batch_found E infos item"
    by (auto simp add: list_ex_iff)
  obtain cid curve where ic: "item = (cid, curve)" by (cases item)
  from item(2) ic obtain c where c: "curve = Some c"
    and ex: "list_ex (\<lambda>d. d \<noteq> None) (ExtendedBatchDL E c (batch_points E infos cid))"
    by (cases curve) (simp_all add: batch_found_def)
  let ?dls = "ExtendedBatchDL E c (batch_points E infos cid)"
  let ?Q = "\<lambda>k. curve_type (infos ! k) = cid"
  have len: "length ?dls = length (filter ?Q [0..<length infos])"
    using assms(2) by (simp add: batch_points_def batch_keys_def)
  from ex obtain j where j: "j < length ?dls" "?dls ! j \<noteq> None"
    by (auto simp add: list_ex_length)
  define i where "i = filter ?Q [0..<length infos] ! j"
  have jj: "j < length (filter ?Q [0..<length infos])" using j(1) len by simp
  have i: "i < length infos" "curve_type (infos ! i) = cid" "length (filter ?Q [0..<i]) = j"
    using filter_upt_index[OF jj] unfolding i_def by simp_all
  have bi: "batch_index infos i = j"
    using i(2,3) by (simp add: batch_index_def)
  have "dict_get F cid = Some c"
    using item(1) ic c assms(1) by (simp add: dict_get_distinct)
  then have "priv_dl E F infos i = Some (?dls ! j)"
    using i(2) bi by (simp add: priv_dl_def)
  then show "\<exists>i<length infos. \<exists>v. priv_dl E F infos i = Some (Some v)"
    using i(1) j(2) by auto
next
  assume "\<exists>i<length infos. \<exists>v. priv_dl E F infos i = Some (Some v)"
  then obtain i v where i: "i < length infos" "priv_dl E F infos i = Some (Some v)" by blast
  let ?cid = "curve_type (infos ! i)"
  from i(2) obtain c where c: "dict_get F ?cid = Some c"
    and v: "ExtendedBatchDL E c (batch_points E infos ?cid) ! batch_index infos i = Some v"
    by (auto simp add: priv_dl_def split: option.splits)
  let ?dls = "ExtendedBatchDL E c (batch_points E infos ?cid)"
  let ?Q = "\<lambda>k. curve_type (infos ! k) = ?cid"
  have "length (filter ?Q [0..<i]) < length (filter ?Q [0..<length infos])"
    using filter_upt_nth(2)[of i "length infos" ?Q] i(1) by simp
  then have "batch_index infos i < length ?dls"
    using assms(2) by (simp add: batch_index_def batch_points_def batch_keys_def)
  then have "list_ex (\<lambda>d. d \<noteq> None) ?dls"
    using v by (auto simp add: list_ex_length)
  then have "batch_found E infos (?cid, Some c)" by (simp add: batch_found_def)
  moreover have "(?cid, Some c) \<in> set F" using c assms(1) by (simp add: dict_get_distinct)
  ultimately show "list_ex (batch_found E infos) F" by (auto simp add: list_ex_iff)
qed

lemma hex_digits_roundtrip:
  "list_all (\<lambda>d. hex_digit_value (hex_digit d) = d) [0..<16]"
  by code_simp

lemma hex_digit_value_hex_digit: "d < 16 \<Longrightarrow> hex_digit_value (hex_digit d) = d"
proof -
  assume "d < 16"
  then have "d \<in> set [0..<16]" by simp
  then show ?thesis using hex_digits_roundtrip unfolding list_all_iff by blast
qed

lemma hex_digit_lower: "d < 16 \<Longrightarrow> hex_digit d \<in> set ''0123456789abcdef''"
  unfolding hex_digit_def by (rule nth_mem) simp

lemma hex_nat_lower: "set (hex_nat m) \<subseteq> set ''0123456789abcdef''"
proof (induction m rule: hex_nat.induct)
  case (1 m)
  show ?case
  proof (cases "m < 16")
    case True
    then show ?thesis using hex_digit_lower[of m] by (subst hex_nat.simps) simp
  next
    case False
    have "m mod 16 < 16" by simp
    then have "hex_digit (m mod 16) \<in> set ''0123456789abcdef''" by (rule hex_digit_lower)
    then show ?thesis using 1[OF False] False by (subst hex_nat.simps) simp
  qed
qed

lemma hex_value_snoc: "hex_value (cs @ [c]) = 16 * hex_value cs + hex_digit_value c"
  by (simp add: hex_value_def)

lemma hex_value_hex_nat: "hex_value (hex_nat m) = m"
proof (induction m rule: hex_nat.induct)
  case (1 m)
  show ?case
  proof (cases "m < 16")
    case True
    then show ?thesis
      by (subst hex_nat.simps) (simp add: hex_value_def hex_digit_value_hex_digit)
  next
    case False
    have "hex_value (hex_nat m) = 16 * hex_value (hex_nat (m div 16)) + hex_digit_value (hex_digit (m mod 16))"
      using False by (subst hex_nat.simps) (simp add: hex_value_snoc)
    also have "\<dots> = 16 * (m div 16) + m mod 16"
      using 1[OF False] by (simp add: hex_digit_value_hex_digit)
    finally show ?thesis by simp
  qed
qed

lemma format_x_nonneg:
  "0 \<le> v \<Longrightarrow> set (format_x v) \<subseteq> set ''0123456789abcdef'' \<and> int (hex_value (format_x v)) = v"
  using hex_nat_lower[of "nat v"] by (simp add: format_x_def hex_value_hex_nat)

lemma batch_keys_set:
  "set (batch_keys infos cid) = {k. k < length infos \<and> curve_type (infos ! k) = cid}"
  by (auto simp add: batch_keys_def)

text \<open>
  Claim C3. \<open>CheckWeakECPrivateKey.Check\<close> forms the batch of a registered curve \<open>cid\<close>
  from the keys whose curve identifier equals \<open>cid\<close>, in batch order, hands
  \<open>ExtendedBatchDL\<close> the points of these keys only, and gives entry \<open>j\<close> of its answer to
  key \<open>j\<close> of that batch, a key of curve \<open>cid\<close>. The registry is a dictionary (its keys
  are distinct) and \<open>ExtendedBatchDL\<close> answers with one entry per point.
\<close>

theorem C3_discrete_log_attributed_within_curve_batch:
  assumes "distinct (map fst (CURVE_FACTORY E))"
    and "\<forall>c pts. length (ExtendedBatchDL E c pts) = length pts"
    and "dict_get (CURVE_FACTORY E) cid = Some c"
    and "j < length (batch_keys (map ec_info arts) cid)"
  shows "\<exists>s'. CheckWeakECPrivateKey_Check E self arts = Inr s'
     \<and> set (batch_keys (map ec_info arts) cid)
         = {k. k < length arts \<and> curve_type (ec_info (arts ! k)) = cid}
     \<and> batch_points E (map ec_info arts) cid
         = map (PublicPoint E) (filter (\<lambda>e. curve_type e = cid) (map ec_info arts))
     \<and> batch_keys (map ec_info arts) cid ! j < length arts
     \<and> curve_type (ec_info (arts ! (batch_keys (map ec_info arts) cid ! j))) = cid
     \<and> artifacts s' ! (batch_keys (map ec_info arts) cid ! j)
         = priv_update E self
             (ExtendedBatchDL E c (batch_points E (map ec_info arts) cid) ! j)
             (arts ! (batch_keys (map ec_info arts) cid ! j))"
proof -
  let ?infos = "map ec_info arts"
  let ?Q = "\<lambda>k. curve_type (?infos ! k) = cid"
  define k where "k = batch_keys ?infos cid ! j"
  have jj: "j < length (filter ?Q [0..<length ?infos])"
    using assms(4) by (simp add: batch_keys_def)
  have k: "k < length ?infos" "curve_type (?infos ! k) = cid" "length (filter ?Q [0..<k]) = j"
    using filter_upt_index[OF jj] unfolding k_def batch_keys_def by simp_all
  then have klen: "k < length arts" and kcid: "curve_type (ec_info (arts ! k)) = cid"
    by simp_all
  have bi: "batch_index ?infos k = j"
    using k(2,3) by (simp add: batch_index_def)
  have dl: "priv_dl E (CURVE_FACTORY E) ?infos k
      = Some (ExtendedBatchDL E c (batch_points E ?infos cid) ! j)"
    using assms(3) k(2) bi by (simp add: priv_dl_def)
  from CheckWeakECPrivateKey_char[OF assms(1,2), of self arts] obtain s' where s':
    "CheckWeakECPrivateKey_Check E self arts = Inr s'"
    "\<forall>i<length arts. artifacts s' ! i
        = priv_key E self (priv_dl E (CURVE_FACTORY E) ?infos i) (arts ! i)"
    by blast
  have at: "artifacts s' ! k
      = priv_update E self (ExtendedBatchDL E c (batch_points E ?infos cid) ! j) (arts ! k)"
    using s'(2) klen dl by (simp add: priv_key_def)
  have st: "set (batch_keys ?infos cid) = {k. k < length arts \<and> curve_type (ec_info (arts ! k)) = cid}"
    by (auto simp add: batch_keys_set)
  show ?thesis
    using s'(1) st batch_points_filter[of E ?infos cid] klen kcid at
    unfolding k_def by simp
qed

lemma fixture_wf:
  "distinct (map fst (CURVE_FACTORY fixture_env))"
  "\<forall>c pts. length (ExtendedBatchDL fixture_env c pts) = length pts"
  by (simp_all add: fixture_env_def)

lemma fixture_batch_keys_2: "batch_keys (map ec_info fixture_batch) 2 = [0, 3]"
  by (simp add: batch_keys_def fixture_batch_def fixture_key_def)

lemma fixture_batch_points_2:
  "batch_points fixture_env (map ec_info fixture_batch) 2 = [Some (0, 1), Some (10, 2)]"
  by (simp add: batch_points_def fixture_batch_keys_2)
     (simp add: fixture_batch_def fixture_key_def fixture_env_def bytes_to_int_def)

lemma format_x_10: "format_x 10 = ''a''"
  by (simp add: format_x_def hex_nat.simps hex_digit_def)

theorem C3_witness:
  "distinct (map fst (CURVE_FACTORY fixture_env))
   \<and> (\<forall>c pts. length (ExtendedBatchDL fixture_env c pts) = length pts)
   \<and> dict_get (CURVE_FACTORY fixture_env) 2 = Some fixture_curve_224
   \<and> (1::nat) < length (batch_keys (map ec_info fixture_batch) 2)
   \<and> (\<exists>s'. CheckWeakECPrivateKey_Check fixture_env CheckWeakECPrivateKey_init fixture_batch = Inr s'
        \<and> attached_info (test_info (artifacts s' ! 3)) = [(''discrete_log'', ''a'')])"
proof -
  have h3: "dict_get (CURVE_FACTORY fixture_env) 2 = Some fixture_curve_224"
    by (simp add: fixture_env_def dict_get_def)
  have h4: "(1::nat) < length (batch_keys (map ec_info fixture_batch) 2)"
    by (simp add: fixture_batch_keys_2)
  from C3_discrete_log_attributed_within_curve_batch
    [OF fixture_wf h3 h4, of CheckWeakECPrivateKey_init]
  obtain s' where s':
    "CheckWeakECPrivateKey_Check fixture_env CheckWeakECPrivateKey_init fixture_batch = Inr s'"
    "artifacts s' ! (batch_keys (map ec_info fixture_batch) 2 ! 1)
       = priv_update fixture_env CheckWeakECPrivateKey_init
           (ExtendedBatchDL fixture_env fixture_curve_224
              (batch_points fixture_env (map ec_info fixture_batch) 2) ! 1)
           (fixture_batch ! (batch_keys (map ec_info fixture_batch) 2 ! 1))"
    by blast
  have dl: "ExtendedBatchDL fixture_env fixture_curve_224
              (batch_points fixture_env (map ec_info fixture_batch) 2) ! 1 = Some 10"
    by (simp add: fixture_batch_points_2) (simp add: fixture_env_def)
  have "attached_info (test_info (artifacts s' ! 3)) = [(''discrete_log'', ''a'')]"
    using s'(2) unfolding dl fixture_batch_keys_2
    by (simp add: priv_update_def add_result_def SetTestResult_def AttachInfo_def format_x_10)
       (simp add: fixture_batch_def fixture_key_def fixture_env_def)
  then show ?thesis using fixture_wf h3 h4 s'(1) by blast
qed

text \<open>
  Claim C5. In \<open>CheckWeakECPrivateKey.Check\<close>, a key of a registered curve whose entry in
  the answer of \<open>ExtendedBatchDL\<close> is a value \<open>v\<close> gets \<open>format(v, "x")\<close> attached under
  \<open>INFO_NAME_DISCRETE_LOG\<close> and then a flagged result; for \<open>0 \<le> v\<close> the string consists of
  lowercase hexadecimal digits and reads back as \<open>v\<close>. A key whose entry is \<open>None\<close> gets an
  unflagged result and nothing attached. In both cases the call returns normally.
\<close>

theorem C5_found_value_attached_as_hex_not_found_unflagged:
  assumes "distinct (map fst (CURVE_FACTORY E))"
    and "\<forall>c pts. length (ExtendedBatchDL E c pts) = length pts"
    and "i < length arts"
    and "dict_get (CURVE_FACTORY E) (curve_type (ec_info (arts ! i))) = Some c"
  shows "\<exists>s'. CheckWeakECPrivateKey_Check E self arts = Inr s'
     \<and> (case ExtendedBatchDL E c (batch_points E (map ec_info arts) (curve_type (ec_info (arts ! i))))
               ! batch_index (map ec_info arts) i of
          Some v \<Rightarrow>
            test_info (artifacts s' ! i)
              = SetTestResult
                  (AttachInfo (test_info (arts ! i)) (INFO_NAME_DISCRETE_LOG E) (format_x v))
                  \<lparr>severity = check_severity self, result = True\<rparr>
            \<and> (0 \<le> v \<longrightarrow> set (format_x v) \<subseteq> set ''0123456789abcdef''
                  \<and> int (hex_value (format_x v)) = v)
        | None \<Rightarrow>
            test_info (artifacts s' ! i)
              = SetTestResult (test_info (arts ! i))
                  \<lparr>severity = check_severity self, result = False\<rparr>)"
proof -
  let ?infos = "map ec_info arts"
  let ?dl = "ExtendedBatchDL E c (batch_points E ?infos (curve_type (ec_info (arts ! i))))
               ! batch_index ?infos i"
  have dl: "priv_dl E (CURVE_FACTORY E) ?infos i = Some ?dl"
    using assms(3,4) by (simp add: priv_dl_def)
  from CheckWeakECPrivateKey_char[OF assms(1,2), of self arts] obtain s' where s':
    "CheckWeakECPrivateKey_Check E self arts = Inr s'"
    "\<forall>i<length arts. artifacts s' ! i
        = priv_key E self (priv_dl E (CURVE_FACTORY E) ?infos i) (arts ! i)"
    by blast
  have at: "artifacts s' ! i = priv_update E self ?dl (arts ! i)"
    using s'(2) assms(3) dl by (simp add: priv_key_def)
  have "case ?dl of
          Some v \<Rightarrow>
            test_info (artifacts s' ! i)
              = SetTestResult
                  (AttachInfo (test_info (arts ! i)) (INFO_NAME_DISCRETE_LOG E) (format_x v))
                  \<lparr>severity = check_severity self, result = True\<rparr>
            \<and> (0 \<le> v \<longrightarrow> set (format_x v) \<subseteq> set ''0123456789abcdef''
                  \<and> int (hex_value (format_x v)) = v)
        | None \<Rightarrow>
            test_info (artifacts s' ! i)
              = SetTestResult (test_info (arts ! i))
                  \<lparr>severity = check_severity self, result = False\<rparr>"
    unfolding at using format_x_nonneg
    by (simp add: priv_update_def add_result_def split: option.splits)
  then show ?thesis using s'(1) by blast
qed

lemma fixture_batch_index_3: "batch_index (map ec_info fixture_batch) 3 = 1"
  by (simp add: batch_index_def fixture_batch_def fixture_key_def upt_rec)

theorem C5_witness:
  "distinct (map fst (CURVE_FACTORY fixture_env))
   \<and> (\<forall>c pts. length (ExtendedBatchDL fixture_env c pts) = length pts)
   \<and> (3::nat) < length fixture_batch
   \<and> dict_get (CURVE_FACTORY fixture_env) (curve_type (ec_info (fixture_batch ! 3)))
       = Some fixture_curve_224
   \<and> (\<exists>s'. CheckWeakECPrivateKey_Check fixture_env CheckWeakECPrivateKey_init fixture_batch = Inr s'
        \<and> test_info (artifacts s' ! 3)
            = \<lparr>test_results = [\<lparr>severity = SEVERITY_CRITICAL, result = True\<rparr>],
               attached_info = [(''discrete_log'', ''a'')]\<rparr>)"
proof -
  have h3: "(3::nat) < length fixture_batch"
    by (simp add: fixture_batch_def)
  have cid: "curve_type (ec_info (fixture_batch ! 3)) = 2"
    by (simp add: fixture_batch_def fixture_key_def)
  have h4: "dict_get (CURVE_FACTORY fixture_env) (curve_type (ec_info (fixture_batch ! 3)))
      = Some fixture_curve_224"
    unfolding cid by (simp add: fixture_env_def dict_get_def)
  have dl: "ExtendedBatchDL fixture_env fixture_curve_224
              (batch_points fixture_env (map ec_info fixture_batch)
                 (curve_type (ec_info (fixture_batch ! 3))))
              ! batch_index (map ec_info fixture_batch) 3 = Some 10"
    unfolding cid fixture_batch_index_3 fixture_batch_points_2 by (simp add: fixture_env_def)
  from C5_found_value_attached_as_hex_not_found_unflagged
    [OF fixture_wf h3 h4, of CheckWeakECPrivateKey_init]
  obtain s' where s':
    "CheckWeakECPrivateKey_Check fixture_env CheckWeakECPrivateKey_init fixture_batch = Inr s'"
    "test_info (artifacts s' ! 3)
       = SetTestResult
           (AttachInfo (test_info (fixture_batch ! 3))
              (INFO_NAME_DISCRETE_LOG fixture_env) (format_x 10))
           \<lparr>severity = check_severity CheckWeakECPrivateKey_init, result = True\<rparr>"
    unfolding dl by auto
  have "test_info (artifacts s' ! 3)
      = \<lparr>test_results = [\<lparr>severity = SEVERITY_CRITICAL, result = True\<rparr>],
         attached_info = [(''discrete_log'', ''a'')]\<rparr>"
    unfolding s'(2) format_x_10
    by (simp add: SetTestResult_def AttachInfo_def fixture_batch_def fixture_key_def
        fixture_env_def CheckWeakECPrivateKey_init_def)
  then show ?thesis using fixture_wf h3 h4 s'(1) by blast
qed

text \<open>
  Claim C4. Each of the three \<open>Check\<close> methods returns \<open>True\<close> exactly when the call wrote
  a flagged result for at least one key of the batch; on the empty batch it returns
  \<open>False\<close>. \<open>CheckWeakECPrivateKey.Check\<close> returns under the conditions of its
  collaborators: the registry is a dictionary and \<open>ExtendedBatchDL\<close> answers with one entry
  per point.
\<close>

theorem C4_returns_true_iff_some_key_flagged:
  assumes "distinct (map fst (CURVE_FACTORY E))"
    and "\<forall>c pts. length (ExtendedBatchDL E c pts) = length pts"
  shows "any_weak (CheckValidECKey_Check E self arts)
           = any_flagged arts (artifacts (CheckValidECKey_Check E self arts))
     \<and> any_weak (CheckWeakCurve_Check E self arts)
           = any_flagged arts (artifacts (CheckWeakCurve_Check E self arts))
     \<and> (\<exists>s'. CheckWeakECPrivateKey_Check E self arts = Inr s'
           \<and> any_weak s' = any_flagged arts (artifacts s'))
     \<and> \<not> any_weak (CheckValidECKey_Check E self [])
     \<and> \<not> any_weak (CheckWeakCurve_Check E self [])
     \<and> (\<exists>s'. CheckWeakECPrivateKey_Check E self [] = Inr s' \<and> \<not> any_weak s')"
proof -
  have valid: "any_weak (CheckValidECKey_Check E self bs)
      = any_flagged bs (artifacts (CheckValidECKey_Check E self bs))" for bs
  proof -
    have len: "length (artifacts (CheckValidECKey_Check E self bs)) = length bs"
      by (simp add: CheckValidECKey_Check_eq)
    have "flagged (bs ! i) (artifacts (CheckValidECKey_Check E self bs) ! i)
        \<longleftrightarrow> valid_flag E (ec_info (bs ! i))" if "i < length bs" for i
      using CheckValidECKey_nth[OF that, of E self] by (simp add: flagged_def)
    then have "any_flagged bs (artifacts (CheckValidECKey_Check E self bs))
        \<longleftrightarrow> (\<exists>i<length bs. valid_flag E (ec_info (bs ! i)))"
      by (auto simp add: any_flagged_nth[OF len])
    moreover have "any_weak (CheckValidECKey_Check E self bs)
        \<longleftrightarrow> (\<exists>i<length bs. valid_flag E (ec_info (bs ! i)))"
      by (simp add: CheckValidECKey_Check_eq list_ex_length)
    ultimately show ?thesis by simp
  qed
  have weak: "any_weak (CheckWeakCurve_Check E self bs)
      = any_flagged bs (artifacts (CheckWeakCurve_Check E self bs))" for bs
  proof -
    have len: "length (artifacts (CheckWeakCurve_Check E self bs)) = length bs"
      by (simp add: CheckWeakCurve_Check_eq)
    have "flagged (bs ! i) (artifacts (CheckWeakCurve_Check E self bs) ! i)
        \<longleftrightarrow> weak_flag E (ec_info (bs ! i)) = Some True" if "i < length bs" for i
      using CheckWeakCurve_nth[OF that, of E self]
      by (simp add: flagged_def split: option.splits)
    then have "any_flagged bs (artifacts (CheckWeakCurve_Check E self bs))
        \<longleftrightarrow> (\<exists>i<length bs. weak_flag E (ec_info (bs ! i)) = Some True)"
      by (auto simp add: any_flagged_nth[OF len])
    moreover have "any_weak (CheckWeakCurve_Check E self bs)
        \<longleftrightarrow> (\<exists>i<length bs. weak_flag E (ec_info (bs ! i)) = Some True)"
      by (simp add: CheckWeakCurve_Check_eq list_ex_length)
    ultimately show ?thesis by simp
  qed
  have priv: "\<exists>s'. CheckWeakECPrivateKey_Check E self bs = Inr s'
           \<and> any_weak s' = any_flagged bs (artifacts s')" for bs
  proof -
    from CheckWeakECPrivateKey_char[OF assms, of self bs] obtain s' where s':
      "CheckWeakECPrivateKey_Check E self bs = Inr s'"
      "length (artifacts s') = length bs"
      "\<forall>i<length bs. artifacts s' ! i
          = priv_key E self (priv_dl E (CURVE_FACTORY E) (map ec_info bs) i) (bs ! i)"
      "any_weak s' = list_ex (batch_found E (map ec_info bs)) (CURVE_FACTORY E)"
      by blast
    have "flagged (bs ! i) (artifacts s' ! i)
        \<longleftrightarrow> (\<exists>v. priv_dl E (CURVE_FACTORY E) (map ec_info bs) i = Some (Some v))"
      if "i < length bs" for i
      using s'(3) that by (auto simp add: flagged_def priv_key_def split: option.splits)
    then have "any_flagged bs (artifacts s')
        \<longleftrightarrow> (\<exists>i<length (map ec_info bs). \<exists>v. priv_dl E (CURVE_FACTORY E) (map ec_info bs) i = Some (Some v))"
      by (auto simp add: any_flagged_nth[OF s'(2)])
    then have "any_weak s' = any_flagged bs (artifacts s')"
      using s'(4) batch_found_iff[OF assms, of "map ec_info bs"] by simp
    then show ?thesis using s'(1) by blast
  qed
  have e1: "\<not> any_weak (CheckValidECKey_Check E self [])"
    by (simp add: CheckValidECKey_Check_eq)
  have e2: "\<not> any_weak (CheckWeakCurve_Check E self [])"
    by (simp add: CheckWeakCurve_Check_eq)
  have e3: "\<exists>s'. CheckWeakECPrivateKey_Check E self [] = Inr s' \<and> \<not> any_weak s'"
    using priv[of "[]"] by (auto simp add: any_flagged_def)
  show ?thesis
    using valid[of arts] weak[of arts] priv[of arts] e1 e2 e3 by (intro conjI)
qed

theorem C4_witness:
  "distinct (map fst (CURVE_FACTORY fixture_env))
   \<and> (\<forall>c pts. length (ExtendedBatchDL fixture_env c pts) = length pts)
   \<and> any_weak (CheckValidECKey_Check fixture_env CheckValidECKey_init fixture_batch)
   \<and> any_flagged fixture_batch
        (artifacts (CheckValidECKey_Check fixture_env CheckValidECKey_init fixture_batch))
   \<and> (\<exists>s'. CheckWeakECPrivateKey_Check fixture_env CheckWeakECPrivateKey_init [] = Inr s'
        \<and> \<not> any_weak s')"
proof -
  note t = C4_returns_true_iff_some_key_flagged[OF fixture_wf]
  have "fixture_key 7 [5] [5] \<in> set fixture_batch"
    by (simp add: fixture_batch_def)
  moreover have "valid_flag fixture_env (ec_info (fixture_key 7 [5] [5]))"
    by (simp add: valid_flag_def fixture_key_def fixture_env_def dict_get_def)
  ultimately have a: "any_weak (CheckValidECKey_Check fixture_env CheckValidECKey_init fixture_batch)"
    unfolding CheckValidECKey_Check_eq by (auto simp add: list_ex_iff)
  then have b: "any_flagged fixture_batch
        (artifacts (CheckValidECKey_Check fixture_env CheckValidECKey_init fixture_batch))"
    using t[of CheckValidECKey_init fixture_batch, THEN conjunct1] by simp
  show ?thesis
    using fixture_wf a b t[of CheckWeakECPrivateKey_init "[]"] by blast
qed

lemma list_ex_cong_set: "(\<And>x. x \<in> set xs \<Longrightarrow> P x = Q x) \<Longrightarrow> list_ex P xs = list_ex Q xs"
  by (auto simp add: list_ex_iff)

lemma batch_found_remove:
  assumes "distinct (map fst F)" and "i < length infos"
    and "dict_get F (curve_type (infos ! i)) = None" and "item \<in> set F"
  shows "batch_found E (take i infos @ drop (Suc i) infos) item = batch_found E infos item"
proof (cases item)
  case (Pair cid curve)
  show ?thesis
  proof (cases curve)
    case None
    then show ?thesis by (simp add: batch_found_def Pair)
  next
    case (Some c)
    then have "dict_get F cid = Some c"
      using assms(1,4) Pair by (simp add: dict_get_distinct)
    then have ne: "curve_type (infos ! i) \<noteq> cid" using assms(3) by auto
    have "infos = take i infos @ infos ! i # drop (Suc i) infos"
      using assms(2) by (simp add: id_take_nth_drop)
    then have "filter (\<lambda>e. curve_type e = cid) infos
        = filter (\<lambda>e. curve_type e = cid) (take i infos @ infos ! i # drop (Suc i) infos)"
      by simp
    also have "\<dots> = filter (\<lambda>e. curve_type e = cid) (take i infos @ drop (Suc i) infos)"
      using ne by simp
    finally have "batch_points E (take i infos @ drop (Suc i) infos) cid = batch_points E infos cid"
      by (simp only: batch_points_filter)
    then show ?thesis by (simp add: batch_found_def Pair Some)
  qed
qed

text \<open>
  Claim C6. A key whose curve identifier is not in the registry is skipped by
  \<open>CheckWeakCurve.Check\<close> and \<open>CheckWeakECPrivateKey.Check\<close>: the key is left as it was
  (no result written, nothing attached), and the returned flag is the one the check
  returns on the batch without that key.
\<close>

theorem C6_unknown_curve_skipped_by_strength_and_weak_key_checks:
  assumes "distinct (map fst (CURVE_FACTORY E))"
    and "\<forall>c pts. length (ExtendedBatchDL E c pts) = length pts"
    and "i < length arts"
    and "dict_get (CURVE_FACTORY E) (curve_type (ec_info (arts ! i))) = None"
  shows "artifacts (CheckWeakCurve_Check E self arts) ! i = arts ! i
     \<and> any_weak (CheckWeakCurve_Check E self arts)
         = any_weak (CheckWeakCurve_Check E self (take i arts @ drop (Suc i) arts))
     \<and> (\<exists>s' t'. CheckWeakECPrivateKey_Check E self arts = Inr s'
           \<and> CheckWeakECPrivateKey_Check E self (take i arts @ drop (Suc i) arts) = Inr t'
           \<and> artifacts s' ! i = arts ! i
           \<and> any_weak s' = any_weak t')"
proof -
  let ?rest = "take i arts @ drop (Suc i) arts"
  have wf_none: "weak_flag E (ec_info (arts ! i)) = None"
    using assms(4) by (simp add: weak_flag_def)
  have a: "artifacts (CheckWeakCurve_Check E self arts) ! i = arts ! i"
    using CheckWeakCurve_nth[OF assms(3), of E self] wf_none by simp
  have split: "arts = take i arts @ arts ! i # drop (Suc i) arts"
    using assms(3) by (simp add: id_take_nth_drop)
  have "list_ex (\<lambda>key. weak_flag E (ec_info key) = Some True) arts
      = list_ex (\<lambda>key. weak_flag E (ec_info key) = Some True) (take i arts @ arts ! i # drop (Suc i) arts)"
    using split by simp
  also have "\<dots> = list_ex (\<lambda>key. weak_flag E (ec_info key) = Some True) ?rest"
    using wf_none by simp
  finally have b: "any_weak (CheckWeakCurve_Check E self arts)
         = any_weak (CheckWeakCurve_Check E self ?rest)"
    by (simp add: CheckWeakCurve_Check_eq)
  from CheckWeakECPrivateKey_char[OF assms(1,2), of self arts] obtain s' where s':
    "CheckWeakECPrivateKey_Check E self arts = Inr s'"
    "\<forall>i<length arts. artifacts s' ! i
        = priv_key E self (priv_dl E (CURVE_FACTORY E) (map ec_info arts) i) (arts ! i)"
    "any_weak s' = list_ex (batch_found E (map ec_info arts)) (CURVE_FACTORY E)"
    by blast
  from CheckWeakECPrivateKey_char[OF assms(1,2), of self ?rest] obtain t' where t':
    "CheckWeakECPrivateKey_Check E self ?rest = Inr t'"
    "any_weak t' = list_ex (batch_found E (map ec_info ?rest)) (CURVE_FACTORY E)"
    by blast
  have "priv_dl E (CURVE_FACTORY E) (map ec_info arts) i = None"
    using assms(3,4) by (simp add: priv_dl_def)
  then have c: "artifacts s' ! i = arts ! i"
    using s'(2) assms(3) by (simp add: priv_key_def)
  have infos: "map ec_info ?rest = take i (map ec_info arts) @ drop (Suc i) (map ec_info arts)"
    by (simp add: take_map drop_map)
  have "list_ex (batch_found E (map ec_info ?rest)) (CURVE_FACTORY E)
      = list_ex (batch_found E (map ec_info arts)) (CURVE_FACTORY E)"
    unfolding infos
    by (rule list_ex_cong_set, rule batch_found_remove[OF assms(1)]) (use assms(3,4) in simp_all)
  then have d: "any_weak s' = any_weak t'" using s'(3) t'(2) by simp
  show ?thesis using a b s'(1) t'(1) c d by blast
qed

theorem C6_witness:
  "distinct (map fst (CURVE_FACTORY fixture_env))
   \<and> (\<forall>c pts. length (ExtendedBatchDL fixture_env c pts) = length pts)
   \<and> (1::nat) < length fixture_batch
   \<and> dict_get (CURVE_FACTORY fixture_env) (curve_type (ec_info (fixture_batch ! 1))) = None
   \<and> artifacts (CheckWeakCurve_Check fixture_env CheckWeakCurve_init fixture_batch) ! 1
       = fixture_key 7 [5] [5]
   \<and> (\<exists>s'. CheckWeakECPrivateKey_Check fixture_env CheckWeakECPrivateKey_init fixture_batch = Inr s'
         \<and> artifacts s' ! 1 = fixture_key 7 [5] [5])"
proof -
  have h3: "(1::nat) < length fixture_batch"
    by (simp add: fixture_batch_def)
  have h4: "dict_get (CURVE_FACTORY fixture_env) (curve_type (ec_info (fixture_batch ! 1))) = None"
    by (simp add: fixture_batch_def fixture_env_def fixture_key_def dict_get_def)
  have k: "fixture_batch ! 1 = fixture_key 7 [5] [5]"
    by (simp add: fixture_batch_def)
  note a = C6_unknown_curve_skipped_by_strength_and_weak_key_checks
    [OF fixture_wf h3 h4, of CheckWeakCurve_init, THEN conjunct1]
  note b = C6_unknown_curve_skipped_by_strength_and_weak_key_checks
    [OF fixture_wf h3 h4, of CheckWeakECPrivateKey_init, THEN conjunct2, THEN conjunct2]
  show ?thesis using fixture_wf h3 h4 a b unfolding k by blast
qed

text \<open>
  Claim C7, as stated: every check writes the result slot of every key of the batch
  exactly once. \<open>CheckWeakCurve.Check\<close> does not: on a key of an unknown curve it takes the
  \<open>continue\<close> branch and writes nothing.
\<close>

theorem C7_counterexample:
  "length (new_results (fixture_key 7 [5] [5])
      (artifacts (CheckWeakCurve_Check fixture_env CheckWeakCurve_init [fixture_key 7 [5] [5]]) ! 0))
    \<noteq> 1"
  by (simp add: CheckWeakCurve_Check_def CheckWeakCurve_body_def init_state_def
      fixture_env_def fixture_key_def dict_get_def new_results_def)

subsection \<open>Batches of references\<close>

lemma CheckValidECKey_Check_on_upt:
  "CheckValidECKey_Check E self arts = CheckValidECKey_Check_on E self [0..<length arts] arts"
  by (simp add: CheckValidECKey_Check_def CheckValidECKey_Check_on_def)

lemma CheckWeakCurve_Check_on_upt:
  "CheckWeakCurve_Check E self arts = CheckWeakCurve_Check_on E self [0..<length arts] arts"
  by (simp add: CheckWeakCurve_Check_def CheckWeakCurve_Check_on_def)

lemma keys_loop_length:
  "keys_loop E self dls ks s = Inr s' \<Longrightarrow> length (artifacts s') = length (artifacts s)"
proof (induction ks arbitrary: s)
  case Nil
  then show ?case by simp
next
  case (Cons a ks)
  obtain i key where a: "a = (i, key)" by (cases a)
  show ?case
    using Cons.prems Cons.IH
    by (auto simp add: a Let_def on_test_info_def warn_def split: if_splits option.splits)
qed

lemma factory_loop_on_upt:
  "factory_loop E self F s = factory_loop_on E self [0..<length (artifacts s)] F s"
proof (induction F arbitrary: s)
  case Nil
  then show ?case by simp
next
  case (Cons a F)
  obtain cid curve where a: "a = (cid, curve)" by (cases a)
  show ?case
  proof (cases curve)
    case None
    then show ?thesis by (simp add: a Cons.IH)
  next
    case (Some c)
    show ?thesis
      using keys_loop_length
      by (auto simp add: a Some Cons.IH Let_def split: sum.splits)
  qed
qed

lemma CheckWeakECPrivateKey_Check_on_upt:
  "CheckWeakECPrivateKey_Check E self arts
     = CheckWeakECPrivateKey_Check_on E self [0..<length arts] arts"
  using factory_loop_on_upt[of E self "CURVE_FACTORY E" "init_state arts"]
  by (simp add: CheckWeakECPrivateKey_Check_def CheckWeakECPrivateKey_Check_on_def init_state_def)

lemma fold_key_step_refs:
  assumes "\<forall>r\<in>set batch. r < length (artifacts s)"
  shows "length (artifacts (fold (key_step g w fl) batch s)) = length (artifacts s)
     \<and> (\<forall>a<length (artifacts s).
           artifacts (fold (key_step g w fl) batch s) ! a
             = (g ^^ count_list batch a) (artifacts s ! a))"
  using assms
proof (induction batch arbitrary: s)
  case Nil
  then show ?case by simp
next
  case (Cons r rs)
  let ?s1 = "key_step g w fl r s"
  have arts1: "artifacts ?s1 = (artifacts s)[r := g (artifacts s ! r)]"
    by (simp add: key_step_def)
  have len1: "length (artifacts ?s1) = length (artifacts s)" by (simp add: arts1)
  have "\<forall>r\<in>set rs. r < length (artifacts ?s1)" using Cons.prems by (simp add: len1)
  from Cons.IH[OF this] have ih:
    "length (artifacts (fold (key_step g w fl) rs ?s1)) = length (artifacts ?s1)"
    "\<forall>a<length (artifacts ?s1). artifacts (fold (key_step g w fl) rs ?s1) ! a
        = (g ^^ count_list rs a) (artifacts ?s1 ! a)"
    by simp_all
  have r: "r < length (artifacts s)" using Cons.prems by simp
  have "artifacts (fold (key_step g w fl) (r # rs) s) ! a
      = (g ^^ count_list (r # rs) a) (artifacts s ! a)" if a: "a < length (artifacts s)" for a
  proof (cases "a = r")
    case True
    have "artifacts (fold (key_step g w fl) (r # rs) s) ! a
        = (g ^^ count_list rs a) (g (artifacts s ! a))"
      using ih(2) a r True by (simp add: len1 arts1)
    then show ?thesis using True by (simp add: funpow_swap1)
  next
    case False
    then show ?thesis using ih(2) a by (simp add: len1 arts1)
  qed
  then show ?case using ih(1) len1 by simp
qed

lemma funpow_appends_results:
  fixes g :: "ECKey \<Rightarrow> ECKey"
  assumes "\<And>k. ec_info (g k) = ec_info k"
    and "\<And>k. ec_info k = e \<Longrightarrow> \<exists>r. test_results (test_info (g k)) = test_results (test_info k) @ [r]"
    and "ec_info key = e"
  shows "ec_info ((g ^^ n) key) = e
     \<and> (\<exists>rs. length rs = n
          \<and> test_results (test_info ((g ^^ n) key)) = test_results (test_info key) @ rs)"
proof (induction n)
  case 0
  then show ?case using assms(3) by simp
next
  case (Suc n)
  then obtain rs where rs: "ec_info ((g ^^ n) key) = e" "length rs = n"
    "test_results (test_info ((g ^^ n) key)) = test_results (test_info key) @ rs"
    by blast
  from assms(2)[OF rs(1)] obtain r where
    "test_results (test_info (g ((g ^^ n) key))) = test_results (test_info ((g ^^ n) key)) @ [r]"
    by blast
  then have "test_results (test_info ((g ^^ Suc n) key)) = test_results (test_info key) @ (rs @ [r])"
    using rs(3) by simp
  moreover have "length (rs @ [r]) = Suc n" using rs(2) by simp
  moreover have "ec_info ((g ^^ Suc n) key) = e" using rs(1) assms(1) by simp
  ultimately show ?case by blast
qed

lemma funpow_fixed: "g x = x \<Longrightarrow> (g ^^ n) x = x"
  by (induction n) simp_all

lemma count_list_filter:
  "count_list (filter P xs) a = (if P a then count_list xs a else 0)"
  by (induction xs) auto

lemma test_results_priv_update:
  "test_results (test_info (priv_update E self dl key))
     = test_results (test_info key) @ [\<lparr>severity = check_severity self, result = (dl \<noteq> None)\<rparr>]"
  by (simp add: priv_update_def add_result_def SetTestResult_def AttachInfo_def
      split: option.splits)

lemma keys_loop_Cons:
  assumes "n < length dls" and "k < length (artifacts s)"
  shows "\<exists>s1. keys_loop E self dls ((n, k) # rest) s = keys_loop E self dls rest s1
     \<and> artifacts s1 = (artifacts s)[k := priv_update E self (dls ! n) (artifacts s ! k)]"
proof -
  define s1 where "s1 = (case dls ! n of
      None \<Rightarrow> on_test_info k (\<lambda>ti. SetTestResult ti (CreateTestResult self)) s
    | Some v \<Rightarrow> on_test_info k (\<lambda>ti. SetTestResult ti ((CreateTestResult self)\<lparr>result := True\<rparr>))
        ((on_test_info k (\<lambda>ti. AttachInfo ti (INFO_NAME_DISCRETE_LOG E) (format_x v))
           (warn (Discrete_logarithm_found (format_x v) (ec_info (artifacts s ! k))) s))\<lparr>any_weak := True\<rparr>))"
  have "keys_loop E self dls ((n, k) # rest) s = keys_loop E self dls rest s1"
    using assms(1) by (simp add: s1_def Let_def split: option.splits)
  moreover have "artifacts s1 = (artifacts s)[k := priv_update E self (dls ! n) (artifacts s ! k)]"
    using assms(2) by (simp add: s1_def on_test_info_def warn_def priv_update_def add_result_def
        CreateTestResult_def split: option.splits)
  ultimately show ?thesis by blast
qed

lemma keys_loop_refs:
  assumes "\<forall>k\<in>set keys. k < length (artifacts s)"
    and "n + length keys \<le> length dls"
  shows "\<exists>s'. keys_loop E self dls (enumerate n keys) s = Inr s'
     \<and> length (artifacts s') = length (artifacts s)
     \<and> (\<forall>a<length (artifacts s).
           ec_info (artifacts s' ! a) = ec_info (artifacts s ! a)
         \<and> (a \<notin> set keys \<longrightarrow> artifacts s' ! a = artifacts s ! a)
         \<and> (\<exists>rs. length rs = count_list keys a
               \<and> test_results (test_info (artifacts s' ! a))
                   = test_results (test_info (artifacts s ! a)) @ rs))"
  using assms
proof (induction keys arbitrary: n s)
  case Nil
  then show ?case by simp
next
  case (Cons k ks)
  have n: "n < length dls" and k: "k < length (artifacts s)"
    using Cons.prems by simp_all
  from keys_loop_Cons[OF n k, of E self "enumerate (Suc n) ks"] obtain s1 where s1:
    "keys_loop E self dls (enumerate n (k # ks)) s = keys_loop E self dls (enumerate (Suc n) ks) s1"
    "artifacts s1 = (artifacts s)[k := priv_update E self (dls ! n) (artifacts s ! k)]"
    by auto
  have len1: "length (artifacts s1) = length (artifacts s)" by (simp add: s1(2))
  have "\<forall>k\<in>set ks. k < length (artifacts s1)" "Suc n + length ks \<le> length dls"
    using Cons.prems by (simp_all add: len1)
  from Cons.IH[OF this] obtain s' where s':
    "keys_loop E self dls (enumerate (Suc n) ks) s1 = Inr s'"
    "length (artifacts s') = length (artifacts s1)"
    "\<forall>a<length (artifacts s1).
           ec_info (artifacts s' ! a) = ec_info (artifacts s1 ! a)
         \<and> (a \<notin> set ks \<longrightarrow> artifacts s' ! a = artifacts s1 ! a)
         \<and> (\<exists>rs. length rs = count_list ks a
               \<and> test_results (test_info (artifacts s' ! a))
                   = test_results (test_info (artifacts s1 ! a)) @ rs)"
    by blast
  have "ec_info (artifacts s' ! a) = ec_info (artifacts s ! a)
         \<and> (a \<notin> set (k # ks) \<longrightarrow> artifacts s' ! a = artifacts s ! a)
         \<and> (\<exists>rs. length rs = count_list (k # ks) a
               \<and> test_results (test_info (artifacts s' ! a))
                   = test_results (test_info (artifacts s ! a)) @ rs)"
    if a: "a < length (artifacts s)" for a
  proof -
    from s'(3) a obtain rs where rs:
      "ec_info (artifacts s' ! a) = ec_info (artifacts s1 ! a)"
      "a \<notin> set ks \<longrightarrow> artifacts s' ! a = artifacts s1 ! a"
      "length rs = count_list ks a"
      "test_results (test_info (artifacts s' ! a)) = test_results (test_info (artifacts s1 ! a)) @ rs"
      using len1 by auto
    show ?thesis
    proof (cases "a = k")
      case True
      have at: "artifacts s1 ! a = priv_update E self (dls ! n) (artifacts s ! a)"
        using True k by (simp add: s1(2))
      have "test_results (test_info (artifacts s' ! a))
          = test_results (test_info (artifacts s ! a))
              @ (\<lparr>severity = check_severity self, result = (dls ! n \<noteq> None)\<rparr> # rs)"
        using rs(4) by (simp add: at test_results_priv_update)
      moreover have "length (\<lparr>severity = check_severity self, result = (dls ! n \<noteq> None)\<rparr> # rs)
          = count_list (k # ks) a"
        using rs(3) True by simp
      moreover have "ec_info (artifacts s' ! a) = ec_info (artifacts s ! a)"
        using rs(1) by (simp add: at)
      ultimately show ?thesis using True by auto
    next
      case False
      then have "artifacts s1 ! a = artifacts s ! a" by (simp add: s1(2))
      then show ?thesis using rs False by auto
    qed
  qed
  then show ?case using s1(1) s'(1,2) len1 by simp
qed

lemma factory_loop_on_refs:
  assumes "distinct (map fst F)"
    and "\<forall>c pts. length (ExtendedBatchDL E c pts) = length pts"
    and "\<forall>r\<in>set batch. r < length (artifacts s)"
  shows "\<exists>s'. factory_loop_on E self batch F s = Inr s'
     \<and> length (artifacts s') = length (artifacts s)
     \<and> (\<forall>a<length (artifacts s).
           ec_info (artifacts s' ! a) = ec_info (artifacts s ! a)
         \<and> (case dict_get F (curve_type (ec_info (artifacts s ! a))) of
               None \<Rightarrow> artifacts s' ! a = artifacts s ! a
             | Some c \<Rightarrow>
                 (\<exists>rs. length rs = count_list batch a
                    \<and> test_results (test_info (artifacts s' ! a))
                        = test_results (test_info (artifacts s ! a)) @ rs)))"
  using assms(1,3)
proof (induction F arbitrary: s)
  case Nil
  then show ?case by (simp add: dict_get_def)
next
  case (Cons item F)
  obtain cid curve where item: "item = (cid, curve)" by (cases item)
  have dist: "distinct (map fst F)" and notin: "cid \<notin> fst ` set F"
    using Cons.prems(1) item by simp_all
  have get_cid: "dict_get F cid = None" using notin by (rule dict_get_notin)
  let ?keys = "filter (\<lambda>k. curve_type (ec_info (artifacts s ! k)) = cid) batch"
  show ?case
  proof (cases "curve = None \<or> ?keys = []")
    case True
    then have step: "factory_loop_on E self batch (item # F) s = factory_loop_on E self batch F s"
      by (auto simp add: item Let_def split: option.splits)
    from Cons.IH[OF dist Cons.prems(2)] obtain s' where s':
      "factory_loop_on E self batch F s = Inr s'"
      "length (artifacts s') = length (artifacts s)"
      "\<forall>a<length (artifacts s).
           ec_info (artifacts s' ! a) = ec_info (artifacts s ! a)
         \<and> (case dict_get F (curve_type (ec_info (artifacts s ! a))) of
               None \<Rightarrow> artifacts s' ! a = artifacts s ! a
             | Some c \<Rightarrow>
                 (\<exists>rs. length rs = count_list batch a
                    \<and> test_results (test_info (artifacts s' ! a))
                        = test_results (test_info (artifacts s ! a)) @ rs))"
      by blast
    have "ec_info (artifacts s' ! a) = ec_info (artifacts s ! a)
         \<and> (case dict_get (item # F) (curve_type (ec_info (artifacts s ! a))) of
               None \<Rightarrow> artifacts s' ! a = artifacts s ! a
             | Some c \<Rightarrow>
                 (\<exists>rs. length rs = count_list batch a
                    \<and> test_results (test_info (artifacts s' ! a))
                        = test_results (test_info (artifacts s ! a)) @ rs))"
      if a: "a < length (artifacts s)" for a
    proof (cases "curve_type (ec_info (artifacts s ! a)) = cid")
      case False
      then show ?thesis using s'(3) a by (simp add: item dict_get_Cons)
    next
      case at_cid: True
      have same: "artifacts s' ! a = artifacts s ! a"
        using s'(3) a at_cid get_cid by auto
      show ?thesis
      proof (cases curve)
        case None
        then show ?thesis using same at_cid by (simp add: item dict_get_Cons)
      next
        case (Some c)
        then have "?keys = []" using True by simp
        then have "a \<notin> set batch"
          using at_cid by (auto simp add: filter_empty_conv)
        then have "count_list batch a = 0" by simp
        then show ?thesis using same at_cid Some by (simp add: item dict_get_Cons)
      qed
    qed
    then show ?thesis using step s'(1,2) by simp
  next
    case False
    then obtain c where c: "curve = Some c" and ne: "?keys \<noteq> []" by auto
    let ?dls = "ExtendedBatchDL E c (map (\<lambda>k. PublicPoint E (ec_info (artifacts s ! k))) ?keys)"
    have "\<forall>k\<in>set ?keys. k < length (artifacts s)" "0 + length ?keys \<le> length ?dls"
      using Cons.prems(2) assms(2) by simp_all
    from keys_loop_refs[OF this, of E self] obtain s1 where s1:
      "keys_loop E self ?dls (enumerate 0 ?keys) s = Inr s1"
      "length (artifacts s1) = length (artifacts s)"
      "\<forall>a<length (artifacts s).
           ec_info (artifacts s1 ! a) = ec_info (artifacts s ! a)
         \<and> (a \<notin> set ?keys \<longrightarrow> artifacts s1 ! a = artifacts s ! a)
         \<and> (\<exists>rs. length rs = count_list ?keys a
               \<and> test_results (test_info (artifacts s1 ! a))
                   = test_results (test_info (artifacts s ! a)) @ rs)"
      by blast
    have step: "factory_loop_on E self batch (item # F) s = factory_loop_on E self batch F s1"
      using ne s1(1) by (simp add: item c Let_def)
    have "\<forall>r\<in>set batch. r < length (artifacts s1)" using Cons.prems(2) s1(2) by simp
    from Cons.IH[OF dist this] obtain s' where s':
      "factory_loop_on E self batch F s1 = Inr s'"
      "length (artifacts s') = length (artifacts s1)"
      "\<forall>a<length (artifacts s1).
           ec_info (artifacts s' ! a) = ec_info (artifacts s1 ! a)
         \<and> (case dict_get F (curve_type (ec_info (artifacts s1 ! a))) of
               None \<Rightarrow> artifacts s' ! a = artifacts s1 ! a
             | Some c \<Rightarrow>
                 (\<exists>rs. length rs = count_list batch a
                    \<and> test_results (test_info (artifacts s' ! a))
                        = test_results (test_info (artifacts s1 ! a)) @ rs))"
      by blast
    have "ec_info (artifacts s' ! a) = ec_info (artifacts s ! a)
         \<and> (case dict_get (item # F) (curve_type (ec_info (artifacts s ! a))) of
               None \<Rightarrow> artifacts s' ! a = artifacts s ! a
             | Some c \<Rightarrow>
                 (\<exists>rs. length rs = count_list batch a
                    \<and> test_results (test_info (artifacts s' ! a))
                        = test_results (test_info (artifacts s ! a)) @ rs))"
      if a: "a < length (artifacts s)" for a
    proof -
      from s1(3) a obtain rs1 where rs1:
        "ec_info (artifacts s1 ! a) = ec_info (artifacts s ! a)"
        "a \<notin> set ?keys \<longrightarrow> artifacts s1 ! a = artifacts s ! a"
        "length rs1 = count_list ?keys a"
        "test_results (test_info (artifacts s1 ! a)) = test_results (test_info (artifacts s ! a)) @ rs1"
        by auto
      have a1: "a < length (artifacts s1)" using a s1(2) by simp
      have info: "ec_info (artifacts s' ! a) = ec_info (artifacts s ! a)"
        using s'(3) a1 rs1(1) by simp
      have rest1: "case dict_get F (curve_type (ec_info (artifacts s1 ! a))) of
               None \<Rightarrow> artifacts s' ! a = artifacts s1 ! a
             | Some c \<Rightarrow>
                 (\<exists>rs. length rs = count_list batch a
                    \<and> test_results (test_info (artifacts s' ! a))
                        = test_results (test_info (artifacts s1 ! a)) @ rs)"
        using s'(3) a1 by blast
      have rest: "case dict_get F (curve_type (ec_info (artifacts s ! a))) of
               None \<Rightarrow> artifacts s' ! a = artifacts s1 ! a
             | Some c \<Rightarrow>
                 (\<exists>rs. length rs = count_list batch a
                    \<and> test_results (test_info (artifacts s' ! a))
                        = test_results (test_info (artifacts s1 ! a)) @ rs)"
        using rest1 by (simp only: rs1(1))
      show ?thesis
      proof (cases "curve_type (ec_info (artifacts s ! a)) = cid")
        case True
        have "artifacts s' ! a = artifacts s1 ! a"
          using rest True get_cid by simp
        moreover have "count_list ?keys a = count_list batch a"
          using True by (simp add: count_list_filter)
        ultimately have "\<exists>rs. length rs = count_list batch a
            \<and> test_results (test_info (artifacts s' ! a))
                = test_results (test_info (artifacts s ! a)) @ rs"
          using rs1(3,4) by auto
        then show ?thesis using info True by (simp add: item c dict_get_Cons)
      next
        case False
        then have "a \<notin> set ?keys" by simp
        then have "artifacts s1 ! a = artifacts s ! a" using rs1(2) by simp
        then show ?thesis
          using info rest False by (simp add: item dict_get_Cons split: option.splits)
      qed
    qed
    then show ?thesis using step s'(1,2) s1(2) by simp
  qed
qed

lemma count_list_distinct:
  "distinct xs \<Longrightarrow> count_list xs a = (if a \<in> set xs then 1 else 0)"
  by (induction xs) auto

text \<open>
  Claim C7, amended. One call of a check writes the result slot of a key object once
  for each occurrence of the object in the batch: \<open>CheckValidECKey.Check\<close> for every
  object, \<open>CheckWeakCurve.Check\<close> and \<open>CheckWeakECPrivateKey.Check\<close> for every object whose
  curve identifier is in the registry, while these two leave an object of an unknown
  curve as it was. The results already in the slot are kept. In a batch of distinct
  objects an object of the batch is referenced once, so its slot is written exactly once
  where it is written at all.
\<close>

theorem C7_amended_one_write_per_occurrence_of_known_curve_key:
  assumes "distinct (map fst (CURVE_FACTORY E))"
    and "\<forall>c pts. length (ExtendedBatchDL E c pts) = length pts"
    and "\<forall>r\<in>set batch. r < length objs"
    and "a < length objs"
  shows "(\<exists>rs. length rs = count_list batch a
            \<and> test_results (test_info (artifacts (CheckValidECKey_Check_on E self batch objs) ! a))
                = test_results (test_info (objs ! a)) @ rs)
     \<and> (case dict_get (CURVE_FACTORY E) (curve_type (ec_info (objs ! a))) of
          None \<Rightarrow> artifacts (CheckWeakCurve_Check_on E self batch objs) ! a = objs ! a
        | Some c \<Rightarrow>
            (\<exists>rs. length rs = count_list batch a
               \<and> test_results (test_info (artifacts (CheckWeakCurve_Check_on E self batch objs) ! a))
                   = test_results (test_info (objs ! a)) @ rs))
     \<and> (\<exists>s'. CheckWeakECPrivateKey_Check_on E self batch objs = Inr s'
          \<and> (case dict_get (CURVE_FACTORY E) (curve_type (ec_info (objs ! a))) of
               None \<Rightarrow> artifacts s' ! a = objs ! a
             | Some c \<Rightarrow>
                 (\<exists>rs. length rs = count_list batch a
                    \<and> test_results (test_info (artifacts s' ! a))
                        = test_results (test_info (objs ! a)) @ rs)))
     \<and> (distinct batch \<longrightarrow> count_list batch a = (if a \<in> set batch then 1 else 0))"
proof -
  have refs: "\<forall>r\<in>set batch. r < length (artifacts (init_state objs))"
    and a0: "a < length (artifacts (init_state objs))"
    and at0: "artifacts (init_state objs) ! a = objs ! a"
    using assms(3,4) by (simp_all add: init_state_def)
  let ?gv = "\<lambda>key. add_result self (valid_flag E (ec_info key)) key"
  have "artifacts (CheckValidECKey_Check_on E self batch objs) ! a
      = (?gv ^^ count_list batch a) (objs ! a)"
    using fold_key_step_refs[OF refs, of ?gv] a0 at0
    by (simp add: CheckValidECKey_Check_on_def CheckValidECKey_body_step)
  moreover have "\<exists>rs. length rs = count_list batch a
      \<and> test_results (test_info ((?gv ^^ count_list batch a) (objs ! a)))
          = test_results (test_info (objs ! a)) @ rs"
    using funpow_appends_results[of ?gv "ec_info (objs ! a)" "objs ! a" "count_list batch a"]
    by (simp add: add_result_def SetTestResult_def)
  ultimately have valid: "\<exists>rs. length rs = count_list batch a
            \<and> test_results (test_info (artifacts (CheckValidECKey_Check_on E self batch objs) ! a))
                = test_results (test_info (objs ! a)) @ rs"
    by simp
  let ?gw = "\<lambda>key. case weak_flag E (ec_info key) of
      None \<Rightarrow> key | Some fl \<Rightarrow> add_result self fl key"
  have wat: "artifacts (CheckWeakCurve_Check_on E self batch objs) ! a
      = (?gw ^^ count_list batch a) (objs ! a)"
    using fold_key_step_refs[OF refs, of ?gw] a0 at0
    by (simp add: CheckWeakCurve_Check_on_def CheckWeakCurve_body_step)
  have weak: "case dict_get (CURVE_FACTORY E) (curve_type (ec_info (objs ! a))) of
          None \<Rightarrow> artifacts (CheckWeakCurve_Check_on E self batch objs) ! a = objs ! a
        | Some c \<Rightarrow>
            (\<exists>rs. length rs = count_list batch a
               \<and> test_results (test_info (artifacts (CheckWeakCurve_Check_on E self batch objs) ! a))
                   = test_results (test_info (objs ! a)) @ rs)"
  proof (cases "dict_get (CURVE_FACTORY E) (curve_type (ec_info (objs ! a)))")
    case None
    then have "?gw (objs ! a) = objs ! a" by (simp add: weak_flag_def)
    then have "(?gw ^^ count_list batch a) (objs ! a) = objs ! a" by (rule funpow_fixed)
    then show ?thesis using None wat by simp
  next
    case (Some c)
    have inv: "ec_info (?gw k) = ec_info k" for k
      by (simp split: option.splits)
    have app: "\<exists>r. test_results (test_info (?gw k)) = test_results (test_info k) @ [r]"
      if "ec_info k = ec_info (objs ! a)" for k
      using that Some by (simp add: weak_flag_def add_result_def SetTestResult_def)
    from funpow_appends_results[of ?gw "ec_info (objs ! a)" "objs ! a" "count_list batch a",
        OF inv app]
    have "\<exists>rs. length rs = count_list batch a
      \<and> test_results (test_info ((?gw ^^ count_list batch a) (objs ! a)))
          = test_results (test_info (objs ! a)) @ rs"
      by simp
    then show ?thesis using Some wat by simp
  qed
  from factory_loop_on_refs[OF assms(1,2) refs, of self] obtain s' where s':
    "factory_loop_on E self batch (CURVE_FACTORY E) (init_state objs) = Inr s'"
    "\<forall>a<length (artifacts (init_state objs)).
           ec_info (artifacts s' ! a) = ec_info (artifacts (init_state objs) ! a)
         \<and> (case dict_get (CURVE_FACTORY E) (curve_type (ec_info (artifacts (init_state objs) ! a))) of
               None \<Rightarrow> artifacts s' ! a = artifacts (init_state objs) ! a
             | Some c \<Rightarrow>
                 (\<exists>rs. length rs = count_list batch a
                    \<and> test_results (test_info (artifacts s' ! a))
                        = test_results (test_info (artifacts (init_state objs) ! a)) @ rs))"
    by blast
  have "case dict_get (CURVE_FACTORY E) (curve_type (ec_info (artifacts (init_state objs) ! a))) of
               None \<Rightarrow> artifacts s' ! a = artifacts (init_state objs) ! a
             | Some c \<Rightarrow>
                 (\<exists>rs. length rs = count_list batch a
                    \<and> test_results (test_info (artifacts s' ! a))
                        = test_results (test_info (artifacts (init_state objs) ! a)) @ rs)"
    using s'(2) a0 by blast
  then have "case dict_get (CURVE_FACTORY E) (curve_type (ec_info (objs ! a))) of
               None \<Rightarrow> artifacts s' ! a = objs ! a
             | Some c \<Rightarrow>
                 (\<exists>rs. length rs = count_list batch a
                    \<and> test_results (test_info (artifacts s' ! a))
                        = test_results (test_info (objs ! a)) @ rs)"
    by (simp only: at0)
  then have priv: "\<exists>s'. CheckWeakECPrivateKey_Check_on E self batch objs = Inr s'
          \<and> (case dict_get (CURVE_FACTORY E) (curve_type (ec_info (objs ! a))) of
               None \<Rightarrow> artifacts s' ! a = objs ! a
             | Some c \<Rightarrow>
                 (\<exists>rs. length rs = count_list batch a
                    \<and> test_results (test_info (artifacts s' ! a))
                        = test_results (test_info (objs ! a)) @ rs))"
    using s'(1) unfolding CheckWeakECPrivateKey_Check_on_def by blast
  have once: "distinct batch \<longrightarrow> count_list batch a = (if a \<in> set batch then 1 else 0)"
    by (simp add: count_list_distinct)
  show ?thesis
    by (rule conjI[OF valid conjI[OF weak conjI[OF priv once]]])
qed

theorem C7_amended_witness:
  "distinct (map fst (CURVE_FACTORY fixture_env))
   \<and> (\<forall>c pts. length (ExtendedBatchDL fixture_env c pts) = length pts)
   \<and> list_all (\<lambda>r. r < length fixture_objects) fixture_aliased_batch
   \<and> (0::nat) < length fixture_objects
   \<and> count_list fixture_aliased_batch 0 = 2
   \<and> (\<exists>rs. length rs = 2
         \<and> test_results (test_info (artifacts
              (CheckValidECKey_Check_on fixture_env CheckValidECKey_init
                 fixture_aliased_batch fixture_objects) ! 0))
             = test_results (test_info (fixture_objects ! 0)) @ rs)"
proof -
  have h3: "\<forall>r\<in>set fixture_aliased_batch. r < length fixture_objects"
    by (simp add: fixture_aliased_batch_def fixture_objects_def)
  have h4: "(0::nat) < length fixture_objects"
    by (simp add: fixture_objects_def)
  have n: "count_list fixture_aliased_batch 0 = 2"
    by (simp add: fixture_aliased_batch_def)
  note t = C7_amended_one_write_per_occurrence_of_known_curve_key
    [OF fixture_wf h3 h4, of CheckValidECKey_init, THEN conjunct1]
  have "\<exists>rs. length rs = 2
         \<and> test_results (test_info (artifacts
              (CheckValidECKey_Check_on fixture_env CheckValidECKey_init
                 fixture_aliased_batch fixture_objects) ! 0))
             = test_results (test_info (fixture_objects ! 0)) @ rs"
    using t unfolding n .
  moreover have "list_all (\<lambda>r. r < length fixture_objects) fixture_aliased_batch"
    using h3 by (simp add: list_all_iff)
  ultimately show ?thesis using fixture_wf h4 n by blast
qed

lemma same_infos_nth:
  "map ec_info arts' = map ec_info arts \<Longrightarrow> i < length arts \<Longrightarrow>
   ec_info (arts' ! i) = ec_info (arts ! i)"
  by (metis length_map nth_map)

lemma list_ex_infos:
  "list_ex (\<lambda>key. P (ec_info key)) arts = list_ex P (map ec_info arts)"
  by (auto simp add: list_ex_iff)

lemma CheckValidECKey_infos:
  "map ec_info (artifacts (CheckValidECKey_Check E self arts)) = map ec_info arts"
  by (simp add: CheckValidECKey_Check_eq)

lemma CheckWeakCurve_infos:
  "map ec_info (artifacts (CheckWeakCurve_Check E self arts)) = map ec_info arts"
  by (simp add: CheckWeakCurve_Check_eq split: option.splits)

lemma ec_info_priv_key [simp]: "ec_info (priv_key E self r key) = ec_info key"
  by (simp add: priv_key_def split: option.splits)

lemma new_results_priv_key:
  "new_results key (priv_key E self r key)
     = (case r of None \<Rightarrow> []
        | Some dl \<Rightarrow> [\<lparr>severity = check_severity self, result = (dl \<noteq> None)\<rparr>])"
  by (simp add: priv_key_def split: option.splits)

lemma new_info_priv_key:
  "new_info key (priv_key E self r key)
     = (case r of None \<Rightarrow> [] | Some None \<Rightarrow> []
        | Some (Some v) \<Rightarrow> [(INFO_NAME_DISCRETE_LOG E, format_x v)])"
  by (simp add: priv_key_def split: option.splits)

lemma CheckValidECKey_same_infos:
  assumes "map ec_info arts' = map ec_info arts"
  shows "any_weak (CheckValidECKey_Check E self arts') = any_weak (CheckValidECKey_Check E self arts)"
    and "i < length arts \<Longrightarrow>
      new_results (arts' ! i) (artifacts (CheckValidECKey_Check E self arts') ! i)
        = new_results (arts ! i) (artifacts (CheckValidECKey_Check E self arts) ! i)
      \<and> new_info (arts' ! i) (artifacts (CheckValidECKey_Check E self arts') ! i)
        = new_info (arts ! i) (artifacts (CheckValidECKey_Check E self arts) ! i)"
proof -
  show "any_weak (CheckValidECKey_Check E self arts') = any_weak (CheckValidECKey_Check E self arts)"
    by (simp add: CheckValidECKey_Check_eq list_ex_infos[of "valid_flag E"] assms)
  assume i: "i < length arts"
  have len: "length arts' = length arts" using assms by (metis length_map)
  then have i': "i < length arts'" using i by simp
  show "new_results (arts' ! i) (artifacts (CheckValidECKey_Check E self arts') ! i)
        = new_results (arts ! i) (artifacts (CheckValidECKey_Check E self arts) ! i)
      \<and> new_info (arts' ! i) (artifacts (CheckValidECKey_Check E self arts') ! i)
        = new_info (arts ! i) (artifacts (CheckValidECKey_Check E self arts) ! i)"
    using same_infos_nth[OF assms i]
    by (simp add: CheckValidECKey_nth[OF i] CheckValidECKey_nth[OF i'])
qed

lemma CheckWeakCurve_same_infos:
  assumes "map ec_info arts' = map ec_info arts"
  shows "any_weak (CheckWeakCurve_Check E self arts') = any_weak (CheckWeakCurve_Check E self arts)"
    and "i < length arts \<Longrightarrow>
      new_results (arts' ! i) (artifacts (CheckWeakCurve_Check E self arts') ! i)
        = new_results (arts ! i) (artifacts (CheckWeakCurve_Check E self arts) ! i)
      \<and> new_info (arts' ! i) (artifacts (CheckWeakCurve_Check E self arts') ! i)
        = new_info (arts ! i) (artifacts (CheckWeakCurve_Check E self arts) ! i)"
proof -
  show "any_weak (CheckWeakCurve_Check E self arts') = any_weak (CheckWeakCurve_Check E self arts)"
    by (simp add: CheckWeakCurve_Check_eq list_ex_infos[of "\<lambda>e. weak_flag E e = Some True"] assms)
  assume i: "i < length arts"
  have len: "length arts' = length arts" using assms by (metis length_map)
  then have i': "i < length arts'" using i by simp
  show "new_results (arts' ! i) (artifacts (CheckWeakCurve_Check E self arts') ! i)
        = new_results (arts ! i) (artifacts (CheckWeakCurve_Check E self arts) ! i)
      \<and> new_info (arts' ! i) (artifacts (CheckWeakCurve_Check E self arts') ! i)
        = new_info (arts ! i) (artifacts (CheckWeakCurve_Check E self arts) ! i)"
    using same_infos_nth[OF assms i]
    by (simp add: CheckWeakCurve_nth[OF i] CheckWeakCurve_nth[OF i'] split: option.splits)
qed

lemma CheckWeakECPrivateKey_same_infos:
  assumes "distinct (map fst (CURVE_FACTORY E))"
    and "\<forall>c pts. length (ExtendedBatchDL E c pts) = length pts"
    and "CheckWeakECPrivateKey_Check E self arts = Inr s1"
    and "map ec_info arts' = map ec_info arts"
  shows "\<exists>s2. CheckWeakECPrivateKey_Check E self arts' = Inr s2
     \<and> any_weak s2 = any_weak s1
     \<and> (\<forall>i<length arts.
           new_results (arts' ! i) (artifacts s2 ! i) = new_results (arts ! i) (artifacts s1 ! i)
         \<and> new_info (arts' ! i) (artifacts s2 ! i) = new_info (arts ! i) (artifacts s1 ! i))"
proof -
  have len: "length arts' = length arts" using assms(4) by (metis length_map)
  from CheckWeakECPrivateKey_char[OF assms(1,2), of self arts] assms(3) have s1:
    "\<forall>i<length arts. artifacts s1 ! i
        = priv_key E self (priv_dl E (CURVE_FACTORY E) (map ec_info arts) i) (arts ! i)"
    "any_weak s1 = list_ex (batch_found E (map ec_info arts)) (CURVE_FACTORY E)"
    by auto
  from CheckWeakECPrivateKey_char[OF assms(1,2), of self arts'] obtain s2 where s2:
    "CheckWeakECPrivateKey_Check E self arts' = Inr s2"
    "\<forall>i<length arts'. artifacts s2 ! i
        = priv_key E self (priv_dl E (CURVE_FACTORY E) (map ec_info arts') i) (arts' ! i)"
    "any_weak s2 = list_ex (batch_found E (map ec_info arts')) (CURVE_FACTORY E)"
    by blast
  have "\<forall>i<length arts.
           new_results (arts' ! i) (artifacts s2 ! i) = new_results (arts ! i) (artifacts s1 ! i)
         \<and> new_info (arts' ! i) (artifacts s2 ! i) = new_info (arts ! i) (artifacts s1 ! i)"
    using s1(1) s2(2) len
    by (simp add: assms(4) new_results_priv_key new_info_priv_key)
  moreover have "any_weak s2 = any_weak s1"
    using s1(2) s2(3) by (simp add: assms(4))
  ultimately show ?thesis using s2(1) by blast
qed

lemma CheckWeakECPrivateKey_infos:
  assumes "distinct (map fst (CURVE_FACTORY E))"
    and "\<forall>c pts. length (ExtendedBatchDL E c pts) = length pts"
    and "CheckWeakECPrivateKey_Check E self arts = Inr s1"
  shows "map ec_info (artifacts s1) = map ec_info arts"
proof -
  from CheckWeakECPrivateKey_char[OF assms(1,2), of self arts] assms(3) have s1:
    "length (artifacts s1) = length arts"
    "\<forall>i<length arts. artifacts s1 ! i
        = priv_key E self (priv_dl E (CURVE_FACTORY E) (map ec_info arts) i) (arts ! i)"
    by auto
  show ?thesis
    by (rule nth_equalityI) (simp_all add: s1)
qed

text \<open>
  Claim C8. Running a check a second time on the batch the first run left (the same
  keys, their result slots now holding what the first run wrote) gives, for every key,
  the same results and the same attached diagnostics as the first run, and returns the
  same flag. This holds for each of the three checks.
\<close>

theorem C8_second_run_repeats_first_run:
  assumes "distinct (map fst (CURVE_FACTORY E))"
    and "\<forall>c pts. length (ExtendedBatchDL E c pts) = length pts"
  shows "(any_weak (CheckValidECKey_Check E self (artifacts (CheckValidECKey_Check E self arts)))
            = any_weak (CheckValidECKey_Check E self arts)
          \<and> (\<forall>i<length arts.
                new_results (artifacts (CheckValidECKey_Check E self arts) ! i)
                  (artifacts (CheckValidECKey_Check E self
                     (artifacts (CheckValidECKey_Check E self arts))) ! i)
                  = new_results (arts ! i) (artifacts (CheckValidECKey_Check E self arts) ! i)
              \<and> new_info (artifacts (CheckValidECKey_Check E self arts) ! i)
                  (artifacts (CheckValidECKey_Check E self
                     (artifacts (CheckValidECKey_Check E self arts))) ! i)
                  = new_info (arts ! i) (artifacts (CheckValidECKey_Check E self arts) ! i)))
     \<and> (any_weak (CheckWeakCurve_Check E self (artifacts (CheckWeakCurve_Check E self arts)))
            = any_weak (CheckWeakCurve_Check E self arts)
          \<and> (\<forall>i<length arts.
                new_results (artifacts (CheckWeakCurve_Check E self arts) ! i)
                  (artifacts (CheckWeakCurve_Check E self
                     (artifacts (CheckWeakCurve_Check E self arts))) ! i)
                  = new_results (arts ! i) (artifacts (CheckWeakCurve_Check E self arts) ! i)
              \<and> new_info (artifacts (CheckWeakCurve_Check E self arts) ! i)
                  (artifacts (CheckWeakCurve_Check E self
                     (artifacts (CheckWeakCurve_Check E self arts))) ! i)
                  = new_info (arts ! i) (artifacts (CheckWeakCurve_Check E self arts) ! i)))
     \<and> (\<exists>s1 s2. CheckWeakECPrivateKey_Check E self arts = Inr s1
          \<and> CheckWeakECPrivateKey_Check E self (artifacts s1) = Inr s2
          \<and> any_weak s2 = any_weak s1
          \<and> (\<forall>i<length arts.
                new_results (artifacts s1 ! i) (artifacts s2 ! i)
                  = new_results (arts ! i) (artifacts s1 ! i)
              \<and> new_info (artifacts s1 ! i) (artifacts s2 ! i)
                  = new_info (arts ! i) (artifacts s1 ! i)))"
proof -
  have a: "any_weak (CheckValidECKey_Check E self (artifacts (CheckValidECKey_Check E self arts)))
            = any_weak (CheckValidECKey_Check E self arts)
          \<and> (\<forall>i<length arts.
                new_results (artifacts (CheckValidECKey_Check E self arts) ! i)
                  (artifacts (CheckValidECKey_Check E self
                     (artifacts (CheckValidECKey_Check E self arts))) ! i)
                  = new_results (arts ! i) (artifacts (CheckValidECKey_Check E self arts) ! i)
              \<and> new_info (artifacts (CheckValidECKey_Check E self arts) ! i)
                  (artifacts (CheckValidECKey_Check E self
                     (artifacts (CheckValidECKey_Check E self arts))) ! i)
                  = new_info (arts ! i) (artifacts (CheckValidECKey_Check E self arts) ! i))"
    using CheckValidECKey_same_infos[OF CheckValidECKey_infos]
    by blast
  have b: "any_weak (CheckWeakCurve_Check E self (artifacts (CheckWeakCurve_Check E self arts)))
            = any_weak (CheckWeakCurve_Check E self arts)
          \<and> (\<forall>i<length arts.
                new_results (artifacts (CheckWeakCurve_Check E self arts) ! i)
                  (artifacts (CheckWeakCurve_Check E self
                     (artifacts (CheckWeakCurve_Check E self arts))) ! i)
                  = new_results (arts ! i) (artifacts (CheckWeakCurve_Check E self arts) ! i)
              \<and> new_info (artifacts (CheckWeakCurve_Check E self arts) ! i)
                  (artifacts (CheckWeakCurve_Check E self
                     (artifacts (CheckWeakCurve_Check E self arts))) ! i)
                  = new_info (arts ! i) (artifacts (CheckWeakCurve_Check E self arts) ! i))"
    using CheckWeakCurve_same_infos[OF CheckWeakCurve_infos]
    by blast
  from CheckWeakECPrivateKey_char[OF assms, of self arts] obtain s1 where
    s1: "CheckWeakECPrivateKey_Check E self arts = Inr s1" by blast
  note infos = CheckWeakECPrivateKey_infos[OF assms s1]
  from CheckWeakECPrivateKey_same_infos[OF assms s1 infos] s1
  have c: "\<exists>s1 s2. CheckWeakECPrivateKey_Check E self arts = Inr s1
          \<and> CheckWeakECPrivateKey_Check E self (artifacts s1) = Inr s2
          \<and> any_weak s2 = any_weak s1
          \<and> (\<forall>i<length arts.
                new_results (artifacts s1 ! i) (artifacts s2 ! i)
                  = new_results (arts ! i) (artifacts s1 ! i)
              \<and> new_info (artifacts s1 ! i) (artifacts s2 ! i)
                  = new_info (arts ! i) (artifacts s1 ! i))"
    by blast
  show ?thesis by (rule conjI[OF a conjI[OF b c]])
qed

theorem C8_witness:
  "distinct (map fst (CURVE_FACTORY fixture_env))
   \<and> (\<forall>c pts. length (ExtendedBatchDL fixture_env c pts) = length pts)
   \<and> (3::nat) < length fixture_batch
   \<and> (\<exists>s1 s2.
         CheckWeakECPrivateKey_Check fixture_env CheckWeakECPrivateKey_init fixture_batch = Inr s1
       \<and> CheckWeakECPrivateKey_Check fixture_env CheckWeakECPrivateKey_init (artifacts s1) = Inr s2
       \<and> any_weak s2 = any_weak s1
       \<and> new_results (artifacts s1 ! 3) (artifacts s2 ! 3)
           = new_results (fixture_batch ! 3) (artifacts s1 ! 3)
       \<and> new_info (artifacts s1 ! 3) (artifacts s2 ! 3)
           = new_info (fixture_batch ! 3) (artifacts s1 ! 3))"
proof -
  have h3: "(3::nat) < length fixture_batch"
    by (simp add: fixture_batch_def)
  from C8_second_run_repeats_first_run[OF fixture_wf, of CheckWeakECPrivateKey_init fixture_batch]
  obtain s1 s2 where s:
    "CheckWeakECPrivateKey_Check fixture_env CheckWeakECPrivateKey_init fixture_batch = Inr s1"
    "CheckWeakECPrivateKey_Check fixture_env CheckWeakECPrivateKey_init (artifacts s1) = Inr s2"
    "any_weak s2 = any_weak s1"
    "\<forall>i<length fixture_batch.
        new_results (artifacts s1 ! i) (artifacts s2 ! i)
          = new_results (fixture_batch ! i) (artifacts s1 ! i)
      \<and> new_info (artifacts s1 ! i) (artifacts s2 ! i)
          = new_info (fixture_batch ! i) (artifacts s1 ! i)"
    by blast
  from s(4) h3 have
    "new_results (artifacts s1 ! 3) (artifacts s2 ! 3)
       = new_results (fixture_batch ! 3) (artifacts s1 ! 3)
     \<and> new_info (artifacts s1 ! 3) (artifacts s2 ! 3)
       = new_info (fixture_batch ! 3) (artifacts s1 ! 3)"
    by blast
  then show ?thesis using fixture_wf h3 s(1,2,3) by blast
qed

lemma dict_get_filter:
  "distinct (map fst d) \<Longrightarrow> dict_get (filter (\<lambda>(k, v). v \<noteq> None) d) k = dict_get d k"
proof (induction d)
  case Nil
  then show ?case by simp
next
  case (Cons a d)
  obtain k0 v0 where a: "a = (k0, v0)" by (cases a)
  have notin: "k0 \<notin> fst ` set d" and dist: "distinct (map fst d)"
    using Cons.prems a by simp_all
  show ?case
  proof (cases v0)
    case None
    then show ?thesis
      using Cons.IH[OF dist] dict_get_notin[OF notin] by (simp add: a dict_get_Cons)
  next
    case (Some c)
    then show ?thesis
      using Cons.IH[OF dist] by (simp add: a dict_get_Cons)
  qed
qed

lemma map_of_filter_none:
  assumes "distinct (map fst d)" and "map_of d k = Some None"
  shows "map_of (filter (\<lambda>(k, v). v \<noteq> None) d) k = None"
proof -
  have "k \<notin> fst ` set (filter (\<lambda>(k, v). v \<noteq> None) d)"
  proof
    assume "k \<in> fst ` set (filter (\<lambda>(k, v). v \<noteq> None) d)"
    then obtain v where v: "(k, v) \<in> set d" "v \<noteq> None" by auto
    then have "map_of d k = Some v" using assms(1) by (simp add: map_of_is_SomeI)
    then show False using assms(2) v(2) by simp
  qed
  then show ?thesis by (simp add: map_of_eq_None_iff)
qed

lemma keys_loop_env:
  "keys_loop (E\<lparr>CURVE_FACTORY := G\<rparr>) self dls ks s = keys_loop E self dls ks s"
proof (induction ks arbitrary: s)
  case Nil
  then show ?case by simp
next
  case (Cons a ks)
  obtain i key where a: "a = (i, key)" by (cases a)
  show ?case
    by (simp add: a Cons.IH Let_def split: option.splits)
qed

lemma factory_loop_env:
  "factory_loop (E\<lparr>CURVE_FACTORY := G\<rparr>) self F s = factory_loop E self F s"
proof (induction F arbitrary: s)
  case Nil
  then show ?case by simp
next
  case (Cons a F)
  obtain cid curve where a: "a = (cid, curve)" by (cases a)
  show ?case
    by (simp add: a Cons.IH keys_loop_env Let_def split: option.splits sum.splits)
qed

lemma factory_loop_filter:
  "factory_loop E self (filter (\<lambda>(k, v). v \<noteq> None) F) s = factory_loop E self F s"
proof (induction F arbitrary: s)
  case Nil
  then show ?case by simp
next
  case (Cons a F)
  obtain cid curve where a: "a = (cid, curve)" by (cases a)
  show ?case
    by (cases curve) (simp_all add: a Cons.IH[simplified] Let_def split: sum.splits)
qed

lemma without_none_entries_checks:
  assumes "distinct (map fst (CURVE_FACTORY E))"
  shows "CheckValidECKey_Check (without_none_entries E) self arts = CheckValidECKey_Check E self arts"
    and "CheckWeakCurve_Check (without_none_entries E) self arts = CheckWeakCurve_Check E self arts"
    and "CheckWeakECPrivateKey_Check (without_none_entries E) self arts
           = CheckWeakECPrivateKey_Check E self arts"
proof -
  have g: "dict_get (CURVE_FACTORY (without_none_entries E)) k = dict_get (CURVE_FACTORY E) k" for k
    using dict_get_filter[OF assms] by (simp add: without_none_entries_def)
  have f: "IsValidPublicKey (without_none_entries E) = IsValidPublicKey E"
    "PublicPoint (without_none_entries E) = PublicPoint E"
    by (simp_all add: without_none_entries_def)
  have v: "valid_flag (without_none_entries E) = valid_flag E"
    by (intro ext) (simp add: valid_flag_def g f split: option.splits)
  have vw: "valid_warnings (without_none_entries E) = valid_warnings E"
    by (intro ext) (simp add: valid_warnings_def g f split: option.splits)
  have w: "weak_flag (without_none_entries E) = weak_flag E"
    by (intro ext) (simp add: weak_flag_def g split: option.splits)
  show "CheckValidECKey_Check (without_none_entries E) self arts = CheckValidECKey_Check E self arts"
    by (simp add: CheckValidECKey_Check_eq v vw)
  show "CheckWeakCurve_Check (without_none_entries E) self arts = CheckWeakCurve_Check E self arts"
    by (simp add: CheckWeakCurve_Check_eq w)
  show "CheckWeakECPrivateKey_Check (without_none_entries E) self arts
           = CheckWeakECPrivateKey_Check E self arts"
    by (simp add: CheckWeakECPrivateKey_Check_def without_none_entries_def
        factory_loop_env factory_loop_filter[simplified])
qed

text \<open>
  Claim C10. A registry entry whose identifier is present with the value \<open>None\<close> is
  treated like an absent identifier. Each of the three checks gives the same final
  state (keys, warnings, returned flag) on the registry as on the registry without its
  \<open>None\<close> entries, where that identifier is absent. For a key with such an identifier,
  \<open>CheckValidECKey.Check\<close> writes a flagged result and warns \<open>Unknown curve\<close>, and
  \<open>CheckWeakCurve.Check\<close> and \<open>CheckWeakECPrivateKey.Check\<close> leave the key as it was.
\<close>

theorem C10_none_entry_treated_as_absent:
  assumes "distinct (map fst (CURVE_FACTORY E))"
    and "\<forall>c pts. length (ExtendedBatchDL E c pts) = length pts"
    and "i < length arts"
    and "map_of (CURVE_FACTORY E) (curve_type (ec_info (arts ! i))) = Some None"
  shows "map_of (CURVE_FACTORY (without_none_entries E)) (curve_type (ec_info (arts ! i))) = None
     \<and> CheckValidECKey_Check E self arts = CheckValidECKey_Check (without_none_entries E) self arts
     \<and> CheckWeakCurve_Check E self arts = CheckWeakCurve_Check (without_none_entries E) self arts
     \<and> CheckWeakECPrivateKey_Check E self arts
         = CheckWeakECPrivateKey_Check (without_none_entries E) self arts
     \<and> test_info (artifacts (CheckValidECKey_Check E self arts) ! i)
         = SetTestResult (test_info (arts ! i)) \<lparr>severity = check_severity self, result = True\<rparr>
     \<and> Unknown_curve (ec_info (arts ! i)) \<in> set (logging (CheckValidECKey_Check E self arts))
     \<and> artifacts (CheckWeakCurve_Check E self arts) ! i = arts ! i
     \<and> (\<exists>s'. CheckWeakECPrivateKey_Check E self arts = Inr s' \<and> artifacts s' ! i = arts ! i)"
proof -
  have g: "dict_get (CURVE_FACTORY E) (curve_type (ec_info (arts ! i))) = None"
    using assms(4) by (simp add: dict_get_def)
  have a: "map_of (CURVE_FACTORY (without_none_entries E)) (curve_type (ec_info (arts ! i))) = None"
    using map_of_filter_none[OF assms(1,4)] by (simp add: without_none_entries_def)
  have v: "test_info (artifacts (CheckValidECKey_Check E self arts) ! i)
         = SetTestResult (test_info (arts ! i)) \<lparr>severity = check_severity self, result = True\<rparr>"
    using CheckValidECKey_nth[OF assms(3), of E self] g
    by (simp add: valid_flag_def add_result_def)
  have "Unknown_curve (ec_info (arts ! i)) \<in> set (valid_warnings E (ec_info (arts ! i)))"
    using g by (simp add: valid_warnings_def)
  moreover have "arts ! i \<in> set arts" using assms(3) by simp
  ultimately have l: "Unknown_curve (ec_info (arts ! i))
      \<in> set (logging (CheckValidECKey_Check E self arts))"
    unfolding CheckValidECKey_Check_eq by (simp, blast)
  have w: "artifacts (CheckWeakCurve_Check E self arts) ! i = arts ! i"
    using CheckWeakCurve_nth[OF assms(3), of E self] g by (simp add: weak_flag_def)
  from CheckWeakECPrivateKey_char[OF assms(1,2), of self arts] obtain s' where s':
    "CheckWeakECPrivateKey_Check E self arts = Inr s'"
    "\<forall>i<length arts. artifacts s' ! i
        = priv_key E self (priv_dl E (CURVE_FACTORY E) (map ec_info arts) i) (arts ! i)"
    by blast
  have "priv_dl E (CURVE_FACTORY E) (map ec_info arts) i = None"
    using assms(3) g by (simp add: priv_dl_def)
  then have "artifacts s' ! i = arts ! i"
    using s'(2) assms(3) by (simp add: priv_key_def)
  then have p: "\<exists>s'. CheckWeakECPrivateKey_Check E self arts = Inr s' \<and> artifacts s' ! i = arts ! i"
    using s'(1) by blast
  show ?thesis
    using a v l w p without_none_entries_checks[OF assms(1), of self arts]
    by simp
qed

theorem C10_witness:
  "distinct (map fst (CURVE_FACTORY fixture_env))
   \<and> (\<forall>c pts. length (ExtendedBatchDL fixture_env c pts) = length pts)
   \<and> (4::nat) < length fixture_batch
   \<and> map_of (CURVE_FACTORY fixture_env) (curve_type (ec_info (fixture_batch ! 4))) = Some None
   \<and> test_info (artifacts (CheckValidECKey_Check fixture_env CheckValidECKey_init fixture_batch) ! 4)
       = \<lparr>test_results = [\<lparr>severity = SEVERITY_MEDIUM, result = True\<rparr>], attached_info = []\<rparr>
   \<and> artifacts (CheckWeakCurve_Check fixture_env CheckWeakCurve_init fixture_batch) ! 4
       = fixture_key 4 [1] [1]
   \<and> (\<exists>s'. CheckWeakECPrivateKey_Check fixture_env CheckWeakECPrivateKey_init fixture_batch = Inr s'
         \<and> artifacts s' ! 4 = fixture_key 4 [1] [1])"
proof -
  have h3: "(4::nat) < length fixture_batch"
    by (simp add: fixture_batch_def)
  have h4: "map_of (CURVE_FACTORY fixture_env) (curve_type (ec_info (fixture_batch ! 4))) = Some None"
    by (simp add: fixture_batch_def fixture_env_def fixture_key_def)
  have k: "fixture_batch ! 4 = fixture_key 4 [1] [1]"
    by (simp add: fixture_batch_def)
  note t = C10_none_entry_treated_as_absent[OF fixture_wf h3 h4,
      THEN conjunct2, THEN conjunct2, THEN conjunct2, THEN conjunct2]
  have a: "test_info (artifacts (CheckValidECKey_Check fixture_env CheckValidECKey_init fixture_batch) ! 4)
       = \<lparr>test_results = [\<lparr>severity = SEVERITY_MEDIUM, result = True\<rparr>], attached_info = []\<rparr>"
    unfolding t[of CheckValidECKey_init, THEN conjunct1] k
    by (simp add: SetTestResult_def fixture_key_def CheckValidECKey_init_def)
  have b: "artifacts (CheckWeakCurve_Check fixture_env CheckWeakCurve_init fixture_batch) ! 4
       = fixture_key 4 [1] [1]"
    using t[of CheckWeakCurve_init, THEN conjunct2, THEN conjunct2, THEN conjunct1]
    unfolding k .
  have c: "\<exists>s'. CheckWeakECPrivateKey_Check fixture_env CheckWeakECPrivateKey_init fixture_batch = Inr s'
         \<and> artifacts s' ! 4 = fixture_key 4 [1] [1]"
    using t[of CheckWeakECPrivateKey_init, THEN conjunct2, THEN conjunct2, THEN conjunct2]
    unfolding k .
  show ?thesis using fixture_wf h3 h4 a b c by blast
qed

end
